theory Spec2Isabelle
  imports Main "HOL-Library.Word" "HOL-Library.Sublist"
begin

section \<open>Strings of the runtime\<close>

text \<open>
  A JavaScript string is a sequence of UTF-16 code units. Identifiers, storage names and
  the fixed messages of the handlers are ASCII and are kept as HOL strings; the submitted
  sequence is arbitrary client input and is kept as a list of code units.
\<close>

type_synonym code_unit = "16 word"
type_synonym js_string = "code_unit list"

definition utf16 :: "string \<Rightarrow> js_string" where
  "utf16 s = map of_char s"

text \<open>\<open>haystack.startsWith(needle)\<close> and \<open>haystack.includes(needle)\<close>: substring search.\<close>

fun startsWith :: "js_string \<Rightarrow> js_string \<Rightarrow> bool" where
  "startsWith hs [] = True"
| "startsWith [] (n # ns) = False"
| "startsWith (h # hs) (n # ns) = (h = n \<and> startsWith hs ns)"

fun includes_str :: "js_string \<Rightarrow> js_string \<Rightarrow> bool" where
  "includes_str [] n = (n = [])"
| "includes_str (h # hs) n = (startsWith (h # hs) n \<or> includes_str hs n)"

text \<open>
  \<open>String.prototype.toUpperCase\<close>, which the validator applies to one-code-unit strings
  only (the pieces of \<open>sequence.split("")\<close>). The result is a string: the full case
  mapping of Unicode may give more than one code unit. The table holds every code unit
  whose upper-case form consists of the letters A to Z: the ASCII lower-case letters,
  dotless i (U+0131), long s (U+017F), sharp s (U+00DF, upper-case form SS) and the
  ligatures U+FB00 .. U+FB06 (FF, FI, FL, FFI, FFL, ST, ST). Every other code unit is
  returned as it is: its upper-case form, like the unit itself, holds a code unit that
  is no ASCII letter, which is all that a search in the amino-acid alphabet can see.
\<close>

definition toUpperCase :: "code_unit \<Rightarrow> js_string" where
  "toUpperCase c =
     (if 0x61 \<le> c \<and> c \<le> 0x7A then [c - 0x20]
      else if c = 0x131 then [0x49]
      else if c = 0x17F then [0x53]
      else if c = 0xDF then [0x53, 0x53]
      else if c = 0xFB00 then [0x46, 0x46]
      else if c = 0xFB01 then [0x46, 0x49]
      else if c = 0xFB02 then [0x46, 0x4C]
      else if c = 0xFB03 then [0x46, 0x46, 0x49]
      else if c = 0xFB04 then [0x46, 0x46, 0x4C]
      else if c = 0xFB05 \<or> c = 0xFB06 then [0x53, 0x54]
      else [c])"

section \<open>Data model\<close>

text \<open>The \<open>status\<close> union of \<open>JobData\<close>.\<close>

datatype job_status = Submitted | Queued | Processing | Completed | Error

text \<open>
  A signed read URL, \<open>`${blobClient.url}?${sasToken}`\<close>. Account, container, permission
  (\<open>r\<close>) and signing key are fixed at process start, so the URL is determined by the blob
  name and the expiry instant (milliseconds since the epoch) written into the token.
\<close>

record sas_url =
  sasBlob :: string
  sasExpiresOn :: nat

text \<open>
  \<open>JobData\<close> as the controller builds it. Timestamps are the instants the ISO strings
  denote, in milliseconds. Optional fields are options.
\<close>

record JobData =
  jobId :: string
  sequence :: js_string
  status :: job_status
  storageName :: string
  storageUrl :: "sas_url option"
  submittedAt :: nat
  processedAt :: "nat option"
  completedAt :: "nat option"
  error :: "string option"
  uploaded :: "bool option"

text \<open>\<open>Partial<JobData>\<close>: every field may be absent.\<close>

record JobDataPartial =
  p_jobId :: "string option"
  p_sequence :: "js_string option"
  p_status :: "job_status option"
  p_storageName :: "string option"
  p_storageUrl :: "sas_url option"
  p_submittedAt :: "nat option"
  p_processedAt :: "nat option"
  p_completedAt :: "nat option"
  p_error :: "string option"
  p_uploaded :: "bool option"

definition noUpdates :: JobDataPartial where
  "noUpdates = \<lparr>p_jobId = None, p_sequence = None, p_status = None, p_storageName = None,
     p_storageUrl = None, p_submittedAt = None, p_processedAt = None, p_completedAt = None,
     p_error = None, p_uploaded = None\<rparr>"

text \<open>The object spread \<open>{ ...job, ...updates }\<close>.\<close>

definition spread :: "JobData \<Rightarrow> JobDataPartial \<Rightarrow> JobData" where
  "spread job u =
     \<lparr>jobId = (case p_jobId u of None \<Rightarrow> jobId job | Some v \<Rightarrow> v),
      sequence = (case p_sequence u of None \<Rightarrow> sequence job | Some v \<Rightarrow> v),
      status = (case p_status u of None \<Rightarrow> status job | Some v \<Rightarrow> v),
      storageName = (case p_storageName u of None \<Rightarrow> storageName job | Some v \<Rightarrow> v),
      storageUrl = (case p_storageUrl u of None \<Rightarrow> storageUrl job | Some v \<Rightarrow> Some v),
      submittedAt = (case p_submittedAt u of None \<Rightarrow> submittedAt job | Some v \<Rightarrow> v),
      processedAt = (case p_processedAt u of None \<Rightarrow> processedAt job | Some v \<Rightarrow> Some v),
      completedAt = (case p_completedAt u of None \<Rightarrow> completedAt job | Some v \<Rightarrow> Some v),
      error = (case p_error u of None \<Rightarrow> error job | Some v \<Rightarrow> Some v),
      uploaded = (case p_uploaded u of None \<Rightarrow> uploaded job | Some v \<Rightarrow> Some v)\<rparr>"

text \<open>
  The two JSON files \<open>queue.json\<close> and \<open>log.json\<close>, each holding an array of jobs. Every
  operation of the queue service reads a whole file and writes it back; reading and
  writing the files themselves is taken to succeed.
\<close>

record store =
  queue :: "JobData list"
  log :: "JobData list"

text \<open>
  The value of \<open>req.body.sequence\<close>: any JSON value, or missing. \<open>Other\<close> stands for
  arrays and objects, which are truthy and no strings.
\<close>

datatype req_value = Missing | Null | Bool bool | Number int | Str js_string | Other

fun truthy :: "req_value \<Rightarrow> bool" where
  "truthy Missing = False"
| "truthy Null = False"
| "truthy (Bool b) = b"
| "truthy (Number n) = (n \<noteq> 0)"
| "truthy (Str s) = (s \<noteq> [])"
| "truthy Other = True"

text \<open>The outcome of a call into a cloud SDK: it resolves, or rejects with an error object.\<close>

datatype 'e sdk_result = Resolved | Rejected 'e

record azure_error =
  statusCode :: "int option"

record s3_error =
  name :: string

text \<open>What a handler can throw.\<close>

datatype exn = Failure string | StorageFailure azure_error

text \<open>
  Everything outside the process that one request observes: the environment variables
  read at start-up, the clock, the identifier \<open>uuidv4()\<close> returns, whether the POST to
  the predictor resolves, and the outcome of \<open>getProperties\<close> for each blob name.
\<close>

record world =
  storageAccountName :: "string option"
  storageAccountKey :: "string option"
  containerName :: "string option"
  alphafoldVmEndpoint :: "string option"
  now :: nat
  uuid :: string
  postResolves :: bool
  getProperties :: "string \<Rightarrow> azure_error sdk_result"

text \<open>An environment variable is falsy when unset or empty.\<close>

fun isSet :: "string option \<Rightarrow> bool" where
  "isSet None = False"
| "isSet (Some v) = (v \<noteq> [])"

text \<open>
  The bodies of the JSON responses, and a response with its status code. \<open>ErrorPage\<close> is
  the page that the framework's own error handler sends for an error raised in front of
  the handlers.
\<close>

datatype body =
    ErrorBody string
  | SubmitBody string sas_url string
  | JobBody JobData string
  | ResultBody string job_status "sas_url option" string
  | JobsBody "JobData list" "JobData list"
  | ErrorPage string

datatype response = Response nat body

fun code :: "response \<Rightarrow> nat" where
  "code (Response c b) = c"

fun bodyOf :: "response \<Rightarrow> body" where
  "bodyOf (Response c b) = b"

text \<open>The \<open>storageUrl\<close> member of a response body, if it has one.\<close>

fun bodyUrl :: "body \<Rightarrow> sas_url option" where
  "bodyUrl (ErrorBody e) = None"
| "bodyUrl (SubmitBody i u m) = Some u"
| "bodyUrl (JobBody j m) = storageUrl j"
| "bodyUrl (ResultBody i s u m) = u"
| "bodyUrl (JobsBody q p) = None"
| "bodyUrl (ErrorPage e) = None"

text \<open>The \<open>status\<close> member of a response body, if it has one.\<close>

fun bodyStatus :: "body \<Rightarrow> job_status option" where
  "bodyStatus (ErrorBody e) = None"
| "bodyStatus (SubmitBody i u m) = None"
| "bodyStatus (JobBody j m) = Some (status j)"
| "bodyStatus (ResultBody i s u m) = Some s"
| "bodyStatus (JobsBody q p) = None"
| "bodyStatus (ErrorPage e) = None"

section \<open>Sequence validator\<close>

definition validAminoAcids :: js_string where
  "validAminoAcids = utf16 ''ACDEFGHIKLMNPQRSTVWY''"

fun isValidSequence :: "req_value \<Rightarrow> bool" where
  "isValidSequence (Str s) =
     (s \<noteq> [] \<and> list_all (\<lambda>char. includes_str validAminoAcids (toUpperCase char)) s)"
| "isValidSequence v = False"

section \<open>Job store\<close>

definition addToQueue :: "store \<Rightarrow> JobData \<Rightarrow> store" where
  "addToQueue st jobData = st\<lparr>queue := queue st @ [jobData]\<rparr>"

definition addToLog :: "world \<Rightarrow> store \<Rightarrow> JobData \<Rightarrow> store" where
  "addToLog w st jobData = st\<lparr>log := log st @ [jobData\<lparr>processedAt := Some (now w)\<rparr>]\<rparr>"

definition removeFromQueue :: "store \<Rightarrow> string \<Rightarrow> store" where
  "removeFromQueue st i = st\<lparr>queue := filter (\<lambda>job. jobId job \<noteq> i) (queue st)\<rparr>"

definition getQueuedJob :: "store \<Rightarrow> string \<Rightarrow> JobData option" where
  "getQueuedJob st i = find (\<lambda>job. jobId job = i) (queue st)"

definition getLoggedJob :: "store \<Rightarrow> string \<Rightarrow> JobData option" where
  "getLoggedJob st i = find (\<lambda>job. jobId job = i) (log st)"

text \<open>\<open>Array.prototype.findIndex\<close>, with \<open>None\<close> for \<open>-1\<close>.\<close>

fun findIndex :: "('a \<Rightarrow> bool) \<Rightarrow> 'a list \<Rightarrow> nat option" where
  "findIndex P [] = None"
| "findIndex P (x # xs) =
     (if P x then Some 0 else (case findIndex P xs of None \<Rightarrow> None | Some k \<Rightarrow> Some (Suc k)))"

definition updateLoggedJob :: "store \<Rightarrow> string \<Rightarrow> JobDataPartial \<Rightarrow> store \<times> JobData option" where
  "updateLoggedJob st i updates =
     (case findIndex (\<lambda>job. jobId job = i) (log st) of
        None \<Rightarrow> (st, None)
      | Some index \<Rightarrow>
          (let updatedJob = spread (log st ! index) updates
           in (st\<lparr>log := (log st)[index := updatedJob]\<rparr>, Some updatedJob)))"

definition getAllJobs :: "store \<Rightarrow> JobData list \<times> JobData list" where
  "getAllJobs st = (queue st, log st)"

section \<open>Storage adapter\<close>

definition day :: nat where
  "day = 24 * 60 * 60 * 1000"

definition generateSasUrl :: "world \<Rightarrow> string \<Rightarrow> exn + sas_url" where
  "generateSasUrl w blobName =
     (if \<not> isSet (storageAccountName w) \<or> \<not> isSet (storageAccountKey w)
      then Inl (Failure ''Storage account name and key are required for SAS generation'')
      else Inr \<lparr>sasBlob = blobName, sasExpiresOn = now w + day\<rparr>)"

text \<open>
  The Azure existence check: \<open>getProperties\<close> resolves, or rejects with an error whose
  \<open>statusCode\<close> is compared with 404; any other error is thrown again.
\<close>

definition checkBlobExists :: "world \<Rightarrow> string \<Rightarrow> exn + bool" where
  "checkBlobExists w blobName =
     (case getProperties w blobName of
        Resolved \<Rightarrow> Inr True
      | Rejected e \<Rightarrow> if statusCode e = Some 404 then Inr False else Inl (StorageFailure e))"

text \<open>
  The S3 existence check, over the outcome \<open>send\<close> of the \<open>HeadObjectCommand\<close> for each
  object key: the error's \<open>name\<close> is compared with \<open>NotFound\<close>.
\<close>

definition checkObjectExists :: "(string \<Rightarrow> s3_error sdk_result) \<Rightarrow> string \<Rightarrow> s3_error + bool" where
  "checkObjectExists send objectKey =
     (case send objectKey of
        Resolved \<Rightarrow> Inr True
      | Rejected err \<Rightarrow> if name err = ''NotFound'' then Inr False else Inl err)"

definition getStorageAccountName :: "world \<Rightarrow> exn + string" where
  "getStorageAccountName w =
     (case storageAccountName w of
        Some v \<Rightarrow> if v \<noteq> [] then Inr v
                  else Inl (Failure ''AZURE_STORAGE_ACCOUNT_NAME environment variable is not set'')
      | None \<Rightarrow> Inl (Failure ''AZURE_STORAGE_ACCOUNT_NAME environment variable is not set''))"

definition getContainerName :: "world \<Rightarrow> exn + string" where
  "getContainerName w =
     (case containerName w of
        Some v \<Rightarrow> if v \<noteq> [] then Inr v
                  else Inl (Failure ''AZURE_STORAGE_CONTAINER_NAME environment variable is not set'')
      | None \<Rightarrow> Inl (Failure ''AZURE_STORAGE_CONTAINER_NAME environment variable is not set''))"

section \<open>Job API\<close>

text \<open>
  The body of the inner \<open>try\<close> of \<open>submitSequence\<close> up to the POST: the endpoint must be
  set, the request body is built (which reads account and container name), and the POST
  must resolve.
\<close>

definition sendToVm :: "world \<Rightarrow> exn + unit" where
  "sendToVm w =
     (if \<not> isSet (alphafoldVmEndpoint w)
      then Inl (Failure ''ALPHAFOLD_VM_ENDPOINT environment variable is not set'')
      else (case getStorageAccountName w of
          Inl e \<Rightarrow> Inl e
        | Inr a \<Rightarrow> (case getContainerName w of
            Inl e \<Rightarrow> Inl e
          | Inr c \<Rightarrow> if postResolves w then Inr () else Inl (Failure ''axios.post rejected''))))"

text \<open>The \<open>jobData\<close> object literal of \<open>submitSequence\<close>.\<close>

definition newJob :: "world \<Rightarrow> js_string \<Rightarrow> sas_url \<Rightarrow> JobData" where
  "newJob w s url =
     \<lparr>jobId = uuid w, sequence = s, status = Queued,
      storageName = ''proteins/'' @ uuid w @ ''.pdb'', storageUrl = Some url,
      submittedAt = now w, processedAt = None, completedAt = None, error = None,
      uploaded = None\<rparr>"

definition submitSequence :: "world \<Rightarrow> store \<Rightarrow> req_value \<Rightarrow> store \<times> response" where
  "submitSequence w st sequence_in =
     (if \<not> truthy sequence_in then (st, Response 400 (ErrorBody ''Sequence is required''))
      else if \<not> isValidSequence sequence_in
      then (st, Response 400 (ErrorBody
        ''Invalid protein sequence. Use standard amino acid codes (ACDEFGHIKLMNPQRSTVWY).''))
      else
        (case generateSasUrl w (''proteins/'' @ uuid w @ ''.pdb'') of
           Inl e \<Rightarrow> (st, Response 500 (ErrorBody ''Server error processing sequence''))
         | Inr url \<Rightarrow>
            (let jobData = newJob w (case sequence_in of Str s \<Rightarrow> s | _ \<Rightarrow> []) url;
                 st1 = addToQueue st jobData;
                 st2 = (case sendToVm w of
                     Inr u \<Rightarrow>
                       removeFromQueue (addToLog w st1 (jobData\<lparr>status := Processing\<rparr>))
                         (uuid w)
                   | Inl e \<Rightarrow>
                       addToLog w st1 (jobData\<lparr>status := Error,
                         error := Some ''Failed to send to AlphaFold VM''\<rparr>))
             in (st2, Response 200
                  (SubmitBody (uuid w) url ''Sequence submitted successfully'')))))"

definition getJobStatus :: "world \<Rightarrow> store \<Rightarrow> string \<Rightarrow> store \<times> response" where
  "getJobStatus w st i =
     (case getQueuedJob st i of
        Some queuedJob \<Rightarrow> (st, Response 200 (JobBody queuedJob ''Job is queued for processing''))
      | None \<Rightarrow>
         (case getLoggedJob st i of
            Some loggedJob \<Rightarrow>
              (if status loggedJob = Processing \<or> status loggedJob = Completed
               then (case generateSasUrl w (storageName loggedJob) of
                   Inl e \<Rightarrow> (st, Response 500 (ErrorBody ''Server error checking job status''))
                 | Inr url \<Rightarrow>
                    (case checkBlobExists w (storageName loggedJob) of
                       Inl e \<Rightarrow> (st, Response 500 (ErrorBody ''Server error checking job status''))
                     | Inr exists \<Rightarrow>
                         (st, Response 200 (JobBody
                            (loggedJob\<lparr>storageUrl := Some url,
                               status := (if exists then Completed else Processing),
                               uploaded := Some exists\<rparr>)
                            ''Job has been processed''))))
               else (st, Response 200 (JobBody loggedJob ''Job has been processed'')))
          | None \<Rightarrow> (st, Response 404 (ErrorBody ''Job not found''))))"

definition checkResult :: "world \<Rightarrow> store \<Rightarrow> string \<Rightarrow> store \<times> response" where
  "checkResult w st i =
     (case getLoggedJob st i of
        None \<Rightarrow> (st, Response 404 (ErrorBody ''Job not found''))
      | Some loggedJob \<Rightarrow>
         (case checkBlobExists w (storageName loggedJob) of
            Inl e \<Rightarrow> (st, Response 500 (ErrorBody ''Server error checking result''))
          | Inr exists \<Rightarrow>
             (if exists then
                (let st1 = (if status loggedJob = Processing
                      then fst (updateLoggedJob st i
                             (noUpdates\<lparr>p_status := Some Completed,
                                p_completedAt := Some (now w)\<rparr>))
                      else st)
                 in case generateSasUrl w (storageName loggedJob) of
                      Inl e \<Rightarrow> (st1, Response 500 (ErrorBody ''Server error checking result''))
                    | Inr url \<Rightarrow>
                        (st1, Response 200
                           (ResultBody i Completed (Some url) ''Result is available'')))
              else (st, Response 200
                      (ResultBody i Processing None ''Result is not available yet'')))))"

definition listAllJobs :: "store \<Rightarrow> store \<times> response" where
  "listAllJobs st = (st, Response 200 (JobsBody (fst (getAllJobs st)) (snd (getAllJobs st))))"

text \<open>
  The route \<open>POST /api/submit-sequence\<close> behind \<open>app.use(bodyParser.json())\<close>. The parser
  is the library \<open>body-parser\<close> with its default options: a request that carries no JSON
  body is passed on with the empty object as its body; a JSON body of more than 100kb
  (102400 bytes) is refused with status 413 before it is parsed; a body that does not
  parse is refused with status 400; otherwise the handler runs on the parsed body, of
  which it reads the member \<open>sequence\<close>.
\<close>

definition jsonLimit :: nat where
  "jsonLimit = 100 * 1024"

datatype json_body = NotJson | Malformed | Parsed req_value

record request =
  bodyLength :: nat
  bodyJson :: json_body

definition postSubmitSequence :: "world \<Rightarrow> store \<Rightarrow> request \<Rightarrow> store \<times> response" where
  "postSubmitSequence w st req =
     (case bodyJson req of
        NotJson \<Rightarrow> submitSequence w st Missing
      | Malformed \<Rightarrow>
          (if jsonLimit < bodyLength req
           then (st, Response 413 (ErrorPage ''request entity too large''))
           else (st, Response 400 (ErrorPage ''Unexpected token in JSON'')))
      | Parsed sequence_in \<Rightarrow>
          (if jsonLimit < bodyLength req
           then (st, Response 413 (ErrorPage ''request entity too large''))
           else submitSequence w st sequence_in))"

section \<open>Forward order of the status, and fresh URLs\<close>

text \<open>
  The lifecycle order \<open>submitted, queued, processing, completed\<close>, with \<open>error\<close> above
  all of them: a status may move to a later one or to \<open>error\<close>, and \<open>error\<close> moves
  nowhere.
\<close>

fun rank :: "job_status \<Rightarrow> nat" where
  "rank Submitted = 0"
| "rank Queued = 1"
| "rank Processing = 2"
| "rank Completed = 3"
| "rank Error = 4"

definition forward :: "job_status \<Rightarrow> job_status \<Rightarrow> bool" where
  "forward a b = (a = b \<or> (a \<noteq> Error \<and> rank a < rank b))"

text \<open>A URL is fresh in a request when the generator, called in that request, gives it.\<close>

definition fresh :: "world \<Rightarrow> sas_url \<Rightarrow> bool" where
  "fresh w u = (generateSasUrl w (sasBlob u) = Inr u)"

definition inQueue :: "store \<Rightarrow> string \<Rightarrow> bool" where
  "inQueue st i = (i \<in> set (map jobId (queue st)))"

definition inLog :: "store \<Rightarrow> string \<Rightarrow> bool" where
  "inLog st i = (i \<in> set (map jobId (log st)))"

text \<open>
  Position \<open>k\<close> holds the first record of the queue, or of the log, with the given
  \<open>jobId\<close>: no record before it has that \<open>jobId\<close>.
\<close>

definition firstQueued :: "store \<Rightarrow> string \<Rightarrow> nat \<Rightarrow> bool" where
  "firstQueued st i k =
     (k < length (queue st) \<and> jobId (queue st ! k) = i \<and>
      list_all (\<lambda>job. jobId job \<noteq> i) (take k (queue st)))"

definition firstLogged :: "store \<Rightarrow> string \<Rightarrow> nat \<Rightarrow> bool" where
  "firstLogged st i k =
     (k < length (log st) \<and> jobId (log st ! k) = i \<and>
      list_all (\<lambda>job. jobId job \<noteq> i) (take k (log st)))"

section \<open>A concrete run\<close>

text \<open>
  A configured process with an empty store at instant 1000, the test sequence of the
  README, and the same process when the POST to the predictor is rejected, two days later,
  and once the result has been uploaded.
\<close>

definition notFound :: azure_error where
  "notFound = \<lparr>statusCode = Some 404\<rparr>"

definition exampleWorld :: world where
  "exampleWorld = \<lparr>storageAccountName = Some ''account'', storageAccountKey = Some ''key'',
     containerName = Some ''results'', alphafoldVmEndpoint = Some ''http://vm:5000/predict'',
     now = 1000, uuid = ''job-1'', postResolves = True,
     getProperties = (\<lambda>blobName. Rejected notFound)\<rparr>"

definition failingWorld :: world where
  "failingWorld = exampleWorld\<lparr>postResolves := False\<rparr>"

definition laterWorld :: world where
  "laterWorld = exampleWorld\<lparr>now := 1000 + 2 * day\<rparr>"

definition uploadedWorld :: world where
  "uploadedWorld = exampleWorld\<lparr>now := 5000, getProperties := (\<lambda>blobName. Resolved)\<rparr>"

definition emptyStore :: store where
  "emptyStore = \<lparr>queue = [], log = []\<rparr>"

definition exampleSequence :: js_string where
  "exampleSequence = utf16 ''MENFQKVEKIGEGTYGVVYKARNKLTGEVVALKKIRLDTETEGVPSTAIREIS''"

definition exampleUrl :: sas_url where
  "exampleUrl = \<lparr>sasBlob = ''proteins/job-1.pdb'', sasExpiresOn = 1000 + day\<rparr>"

definition queuedJob :: JobData where
  "queuedJob = \<lparr>jobId = ''job-1'', sequence = exampleSequence, status = Queued,
     storageName = ''proteins/job-1.pdb'', storageUrl = Some exampleUrl, submittedAt = 1000,
     processedAt = None, completedAt = None, error = None, uploaded = None\<rparr>"

definition processingJob :: JobData where
  "processingJob = queuedJob\<lparr>status := Processing, processedAt := Some 1000\<rparr>"

definition failedJob :: JobData where
  "failedJob = queuedJob\<lparr>status := Error, processedAt := Some 1000,
     error := Some ''Failed to send to AlphaFold VM''\<rparr>"

text \<open>
  The store after the submission when the dispatch succeeded, and after the submission
  when it failed.
\<close>

definition processingStore :: store where
  "processingStore = \<lparr>queue = [], log = [processingJob]\<rparr>"

definition failedStore :: store where
  "failedStore = \<lparr>queue = [queuedJob], log = [failedJob]\<rparr>"

text \<open>
  An earlier submission of the same process, at instant 500 under the identifier
  \<open>job-0\<close>, and the store after it and the submission of \<open>job-1\<close>: the record of
  \<open>job-1\<close> is the second of the log.
\<close>

definition earlierWorld :: world where
  "earlierWorld = exampleWorld\<lparr>now := 500, uuid := ''job-0''\<rparr>"

definition earlierJob :: JobData where
  "earlierJob = \<lparr>jobId = ''job-0'', sequence = exampleSequence, status = Processing,
     storageName = ''proteins/job-0.pdb'',
     storageUrl = Some \<lparr>sasBlob = ''proteins/job-0.pdb'', sasExpiresOn = 500 + day\<rparr>,
     submittedAt = 500, processedAt = Some 500, completedAt = None, error = None,
     uploaded = None\<rparr>"

definition twoJobStore :: store where
  "twoJobStore = \<lparr>queue = [], log = [earlierJob, processingJob]\<rparr>"

text \<open>
  Three requests: \<open>{"sequence":"SHORT"}\<close>, a sequence of 1001 letters \<open>A\<close>, and a
  sequence of 200000 letters \<open>A\<close>, each with the length of its body in bytes.
\<close>

definition shortRequest :: request where
  "shortRequest = \<lparr>bodyLength = 20, bodyJson = Parsed (Str (utf16 ''SHORT''))\<rparr>"

definition longSequence :: js_string where
  "longSequence = replicate 1001 0x41"

definition longRequest :: request where
  "longRequest = \<lparr>bodyLength = 1016, bodyJson = Parsed (Str longSequence)\<rparr>"

definition hugeSequence :: js_string where
  "hugeSequence = replicate 200000 0x41"

definition hugeRequest :: request where
  "hugeRequest = \<lparr>bodyLength = 200015, bodyJson = Parsed (Str hugeSequence)\<rparr>"

section \<open>Helper lemmas\<close>

lemma startsWith_prefix: "startsWith hs ns = prefix ns hs"
  by (induction hs ns rule: startsWith.induct) auto

lemma includes_str_sublist: "includes_str hs ns = sublist ns hs"
  by (induction hs) (auto simp: startsWith_prefix sublist_Cons_right)

lemma valid_units:
  "validAminoAcids = [0x41, 0x43, 0x44, 0x45, 0x46, 0x47, 0x48, 0x49, 0x4B, 0x4C, 0x4D, 0x4E,
     0x50, 0x51, 0x52, 0x53, 0x54, 0x56, 0x57, 0x59]"
  by (simp add: validAminoAcids_def utf16_def)

lemma includes_single: "includes_str hs [a] = (a \<in> set hs)"
  by (induction hs) auto

lemma valid_letter_accepted:
  assumes "c \<in> set validAminoAcids"
  shows "includes_str validAminoAcids (toUpperCase c)"
proof -
  have "toUpperCase c = [c]"
    using assms by (auto simp: valid_units toUpperCase_def)
  then show ?thesis
    using assms by (simp add: includes_single)
qed

lemma valid_implies_truthy: "isValidSequence r \<Longrightarrow> truthy r"
  by (cases r) auto

lemma valid_is_string: "isValidSequence r \<Longrightarrow> \<exists>s. r = Str s"
  by (cases r) auto

lemma exampleSequence_valid: "isValidSequence (Str exampleSequence)"
  by code_simp

lemma submit_rejected:
  assumes "\<not> isValidSequence r"
  shows "fst (submitSequence w st r) = st \<and> code (snd (submitSequence w st r)) = 400"
  using assms by (simp add: submitSequence_def)

lemma submit_dispatch_failed:
  assumes "isValidSequence (Str s)"
    and "generateSasUrl w (''proteins/'' @ uuid w @ ''.pdb'') = Inr url"
    and "sendToVm w = Inl e"
  shows "submitSequence w st (Str s) =
    (st\<lparr>queue := queue st @ [newJob w s url],
        log := log st @ [(newJob w s url)\<lparr>status := Error,
          processedAt := Some (now w), error := Some ''Failed to send to AlphaFold VM''\<rparr>]\<rparr>,
     Response 200 (SubmitBody (uuid w) url ''Sequence submitted successfully''))"
  using assms valid_implies_truthy[OF assms(1)]
  by (simp add: submitSequence_def addToQueue_def addToLog_def Let_def
      del: isValidSequence.simps truthy.simps)

lemma submit_dispatch_ok:
  assumes "isValidSequence (Str s)"
    and "generateSasUrl w (''proteins/'' @ uuid w @ ''.pdb'') = Inr url"
    and "sendToVm w = Inr u"
  shows "submitSequence w st (Str s) =
    (st\<lparr>queue := filter (\<lambda>job. jobId job \<noteq> uuid w) (queue st @ [newJob w s url]),
        log := log st @ [(newJob w s url)\<lparr>status := Processing,
          processedAt := Some (now w)\<rparr>]\<rparr>,
     Response 200 (SubmitBody (uuid w) url ''Sequence submitted successfully''))"
  using assms valid_implies_truthy[OF assms(1)]
  by (simp add: submitSequence_def addToQueue_def addToLog_def removeFromQueue_def Let_def
      del: isValidSequence.simps truthy.simps)

lemma example_url: "generateSasUrl exampleWorld ''proteins/job-1.pdb'' = Inr exampleUrl"
  by (simp add: generateSasUrl_def exampleWorld_def exampleUrl_def)

lemma failing_url: "generateSasUrl failingWorld ''proteins/job-1.pdb'' = Inr exampleUrl"
  by (simp add: generateSasUrl_def failingWorld_def exampleWorld_def exampleUrl_def)

lemma example_send: "sendToVm exampleWorld = Inr ()"
  by (simp add: sendToVm_def getStorageAccountName_def getContainerName_def exampleWorld_def)

lemma failing_send: "sendToVm failingWorld = Inl (Failure ''axios.post rejected'')"
  by (simp add: sendToVm_def getStorageAccountName_def getContainerName_def failingWorld_def
      exampleWorld_def)

lemma run_success:
  "submitSequence exampleWorld emptyStore (Str exampleSequence) =
     (\<lparr>queue = [], log = [processingJob]\<rparr>,
      Response 200 (SubmitBody ''job-1'' exampleUrl ''Sequence submitted successfully''))"
proof -
  have u: "uuid exampleWorld = ''job-1''" "now exampleWorld = 1000"
    by (simp_all add: exampleWorld_def)
  show ?thesis
    using submit_dispatch_ok[of exampleSequence exampleWorld exampleUrl "()" emptyStore]
      exampleSequence_valid example_url example_send
    by (simp add: u newJob_def emptyStore_def processingJob_def queuedJob_def)
qed

lemma run_failure:
  "submitSequence failingWorld emptyStore (Str exampleSequence) =
     (\<lparr>queue = [queuedJob], log = [failedJob]\<rparr>,
      Response 200 (SubmitBody ''job-1'' exampleUrl ''Sequence submitted successfully''))"
proof -
  have u: "uuid failingWorld = ''job-1''" "now failingWorld = 1000"
    by (simp_all add: failingWorld_def exampleWorld_def)
  show ?thesis
    using submit_dispatch_failed[of exampleSequence failingWorld exampleUrl _ emptyStore]
      exampleSequence_valid failing_url failing_send
    by (simp add: u newJob_def emptyStore_def failedJob_def queuedJob_def)
qed

lemma unit_accepted_iff:
  "includes_str validAminoAcids (toUpperCase c) \<longleftrightarrow>
     (\<exists>a\<in>set validAminoAcids. toUpperCase c = [a]) \<or> c = 0xFB05 \<or> c = 0xFB06"
proof (cases "\<exists>a. toUpperCase c = [a]")
  case True
  then obtain a where a: "toUpperCase c = [a]" by blast
  have "c \<noteq> 0xFB05 \<and> c \<noteq> 0xFB06"
    using a by (auto simp: toUpperCase_def)
  then show ?thesis
    by (simp add: a includes_single)
next
  case False
  then have "c = 0xDF \<or> c = 0xFB00 \<or> c = 0xFB01 \<or> c = 0xFB02 \<or> c = 0xFB03 \<or> c = 0xFB04
      \<or> c = 0xFB05 \<or> c = 0xFB06"
    by (auto simp: toUpperCase_def split: if_splits)
  then show ?thesis
    using False by (auto simp: toUpperCase_def valid_units)
qed

lemma submit_400_unchanged:
  "code (snd (submitSequence w st r)) = 400 \<Longrightarrow> fst (submitSequence w st r) = st"
  by (auto simp: submitSequence_def Let_def split: if_splits sum.splits)

lemma letters_valid:
  assumes "s \<noteq> []" and "set s \<subseteq> set validAminoAcids"
  shows "isValidSequence (Str s)"
  using assms valid_letter_accepted by (auto simp: list_all_iff)

lemma submit_accepted:
  assumes "isValidSequence (Str s)"
    and "generateSasUrl w (''proteins/'' @ uuid w @ ''.pdb'') = Inr url"
  shows "code (snd (submitSequence w st (Str s))) = 200 \<and>
         inLog (fst (submitSequence w st (Str s))) (uuid w)"
proof (cases "sendToVm w")
  case (Inl e)
  show ?thesis
    using submit_dispatch_failed[OF assms Inl, of st]
    by (simp add: inLog_def newJob_def)
next
  case (Inr u)
  show ?thesis
    using submit_dispatch_ok[OF assms Inr, of st]
    by (simp add: inLog_def newJob_def)
qed

lemma short_invalid: "\<not> isValidSequence (Str (utf16 ''SHORT''))"
  by code_simp

lemma short_truthy: "truthy (Str (utf16 ''SHORT''))"
  by (simp add: utf16_def)

lemma find_Some_findIndex:
  assumes "find P xs = Some x"
  shows "\<exists>k. findIndex P xs = Some k \<and> k < length xs \<and> xs ! k = x"
  using assms
proof (induction xs)
  case Nil
  then show ?case by simp
next
  case (Cons y ys)
  show ?case
  proof (cases "P y")
    case True
    then show ?thesis using Cons.prems by simp
  next
    case False
    then have "find P ys = Some x" using Cons.prems by simp
    then obtain k where "findIndex P ys = Some k" "k < length ys" "ys ! k = x"
      using Cons.IH by blast
    then show ?thesis using False by simp
  qed
qed

lemma find_update_first:
  assumes "findIndex P xs = Some k" and "P y"
  shows "find P (xs[k := y]) = Some y"
  using assms
proof (induction xs arbitrary: k)
  case Nil
  then show ?case by simp
next
  case (Cons z zs)
  show ?case
  proof (cases "P z")
    case True
    then show ?thesis using Cons.prems by simp
  next
    case False
    then obtain j where j: "findIndex P zs = Some j" "k = Suc j"
      using Cons.prems by (auto split: option.splits)
    then show ?thesis using False Cons.IH[OF j(1) Cons.prems(2)] by simp
  qed
qed

lemma find_Some_holds: "find P xs = Some x \<Longrightarrow> P x \<and> x \<in> set xs"
  by (induction xs) (auto split: if_splits)

lemma find_None_set: "find P xs = None \<longleftrightarrow> (\<forall>x\<in>set xs. \<not> P x)"
  by (induction xs) auto

lemma getQueuedJob_None: "getQueuedJob st i = None \<longleftrightarrow> \<not> inQueue st i"
  by (auto simp: getQueuedJob_def inQueue_def find_None_set)

lemma getLoggedJob_None: "getLoggedJob st i = None \<longleftrightarrow> \<not> inLog st i"
  by (auto simp: getLoggedJob_def inLog_def find_None_set)

lemma getQueuedJob_Some: "getQueuedJob st i = Some q \<Longrightarrow> jobId q = i \<and> q \<in> set (queue st)"
  using find_Some_holds[of "\<lambda>job. jobId job = i" "queue st" q] by (simp add: getQueuedJob_def)

lemma getLoggedJob_Some: "getLoggedJob st i = Some l \<Longrightarrow> jobId l = i \<and> l \<in> set (log st)"
  using find_Some_holds[of "\<lambda>job. jobId job = i" "log st" l] by (simp add: getLoggedJob_def)

lemma spread_completion:
  "spread l (noUpdates\<lparr>p_status := Some Completed, p_completedAt := Some t\<rparr>) =
     l\<lparr>status := Completed, completedAt := Some t\<rparr>"
  by (simp add: spread_def noUpdates_def)

lemma update_completed:
  assumes "getLoggedJob st i = Some l"
  shows "\<exists>k<length (log st). log st ! k = l \<and>
     fst (updateLoggedJob st i (noUpdates\<lparr>p_status := Some Completed, p_completedAt := Some t\<rparr>)) =
       st\<lparr>log := (log st)[k := l\<lparr>status := Completed, completedAt := Some t\<rparr>]\<rparr> \<and>
     getLoggedJob (st\<lparr>log := (log st)[k := l\<lparr>status := Completed, completedAt := Some t\<rparr>]\<rparr>) i =
       Some (l\<lparr>status := Completed, completedAt := Some t\<rparr>)"
proof -
  let ?P = "\<lambda>job. jobId job = i"
  let ?l' = "l\<lparr>status := Completed, completedAt := Some t\<rparr>"
  obtain k where k: "findIndex ?P (log st) = Some k" "k < length (log st)" "log st ! k = l"
    using find_Some_findIndex[of ?P "log st" l] assms by (auto simp: getLoggedJob_def)
  have "jobId l = i"
    using getLoggedJob_Some[OF assms] by simp
  then have "?P ?l'" by simp
  then have "find ?P ((log st)[k := ?l']) = Some ?l'"
    using find_update_first[OF k(1)] by blast
  then show ?thesis
    using k by (auto simp: updateLoggedJob_def spread_completion getLoggedJob_def Let_def)
qed

lemma checkResult_not_logged:
  "getLoggedJob st i = None \<Longrightarrow> checkResult w st i = (st, Response 404 (ErrorBody ''Job not found''))"
  by (simp add: checkResult_def)

lemma checkResult_absent:
  assumes "getLoggedJob st i = Some l" and "checkBlobExists w (storageName l) = Inr False"
  shows "checkResult w st i =
    (st, Response 200 (ResultBody i Processing None ''Result is not available yet''))"
  using assms by (simp add: checkResult_def)

lemma checkResult_unchanged:
  assumes "getLoggedJob st i = Some l" and "status l \<noteq> Processing"
  shows "fst (checkResult w st i) = st"
  using assms by (auto simp: checkResult_def Let_def split: sum.splits)

lemma checkResult_present:
  assumes "getLoggedJob st i = Some l" and "checkBlobExists w (storageName l) = Inr True"
    and "generateSasUrl w (storageName l) = Inr url"
  shows "snd (checkResult w st i) =
    Response 200 (ResultBody i Completed (Some url) ''Result is available'')"
  using assms by (simp add: checkResult_def Let_def)

lemma checkResult_transition:
  assumes "getLoggedJob st i = Some l" and "checkBlobExists w (storageName l) = Inr True"
    and "status l = Processing"
  shows "\<exists>k<length (log st). log st ! k = l \<and>
     fst (checkResult w st i) =
       st\<lparr>log := (log st)[k := l\<lparr>status := Completed, completedAt := Some (now w)\<rparr>]\<rparr> \<and>
     getLoggedJob (fst (checkResult w st i)) i =
       Some (l\<lparr>status := Completed, completedAt := Some (now w)\<rparr>)"
proof -
  obtain k where k: "k < length (log st)" "log st ! k = l"
    "fst (updateLoggedJob st i (noUpdates\<lparr>p_status := Some Completed, p_completedAt := Some (now w)\<rparr>)) =
       st\<lparr>log := (log st)[k := l\<lparr>status := Completed, completedAt := Some (now w)\<rparr>]\<rparr>"
    "getLoggedJob (st\<lparr>log := (log st)[k := l\<lparr>status := Completed, completedAt := Some (now w)\<rparr>]\<rparr>) i =
       Some (l\<lparr>status := Completed, completedAt := Some (now w)\<rparr>)"
    using update_completed[OF assms(1), of "now w"] by blast
  have "fst (checkResult w st i) =
      st\<lparr>log := (log st)[k := l\<lparr>status := Completed, completedAt := Some (now w)\<rparr>]\<rparr>"
    using assms k(3) by (simp add: checkResult_def Let_def split: sum.splits)
  then show ?thesis
    using k by auto
qed

lemma run_success_store:
  "submitSequence exampleWorld emptyStore (Str exampleSequence) =
     (processingStore,
      Response 200 (SubmitBody ''job-1'' exampleUrl ''Sequence submitted successfully''))"
  using run_success by (simp add: processingStore_def)

lemma run_failure_store:
  "submitSequence failingWorld emptyStore (Str exampleSequence) =
     (failedStore,
      Response 200 (SubmitBody ''job-1'' exampleUrl ''Sequence submitted successfully''))"
  using run_failure by (simp add: failedStore_def)

lemma processing_logged: "getLoggedJob processingStore ''job-1'' = Some processingJob"
  by (simp add: getLoggedJob_def processingStore_def processingJob_def queuedJob_def)

lemma processing_not_queued: "getQueuedJob processingStore ''job-1'' = None"
  by (simp add: getQueuedJob_def processingStore_def)

lemma failed_logged: "getLoggedJob failedStore ''job-1'' = Some failedJob"
  by (simp add: getLoggedJob_def failedStore_def failedJob_def queuedJob_def)

lemma failed_queued: "getQueuedJob failedStore ''job-1'' = Some queuedJob"
  by (simp add: getQueuedJob_def failedStore_def queuedJob_def)

lemma empty_not_logged: "getLoggedJob emptyStore i = None"
  by (simp add: getLoggedJob_def emptyStore_def)

lemma empty_not_queued: "getQueuedJob emptyStore i = None"
  by (simp add: getQueuedJob_def emptyStore_def)

lemma job_names:
  "storageName processingJob = ''proteins/job-1.pdb''"
  "storageName failedJob = ''proteins/job-1.pdb''"
  "storageName queuedJob = ''proteins/job-1.pdb''"
  "status processingJob = Processing" "status failedJob = Error" "status queuedJob = Queued"
  by (simp_all add: processingJob_def failedJob_def queuedJob_def)

lemma blob_absent:
  "checkBlobExists exampleWorld n = Inr False" "checkBlobExists laterWorld n = Inr False"
  by (simp_all add: checkBlobExists_def exampleWorld_def laterWorld_def notFound_def)

lemma blob_present: "checkBlobExists uploadedWorld n = Inr True"
  by (simp add: checkBlobExists_def uploadedWorld_def)

lemma uploaded_url:
  "generateSasUrl uploadedWorld n = Inr \<lparr>sasBlob = n, sasExpiresOn = 5000 + day\<rparr>"
  by (simp add: generateSasUrl_def uploadedWorld_def exampleWorld_def)

lemma later_url:
  "generateSasUrl laterWorld n = Inr \<lparr>sasBlob = n, sasExpiresOn = 1000 + 3 * day\<rparr>"
  by (simp add: generateSasUrl_def laterWorld_def exampleWorld_def)

lemma getJobStatus_store: "fst (getJobStatus w st i) = st"
  by (auto simp: getJobStatus_def split: option.splits sum.splits)

lemma getJobStatus_queued:
  assumes "getQueuedJob st i = Some q"
  shows "getJobStatus w st i = (st, Response 200 (JobBody q ''Job is queued for processing''))"
  using assms by (simp add: getJobStatus_def)

lemma getJobStatus_logged:
  assumes "getQueuedJob st i = None" and "getLoggedJob st i = Some l"
    and "status l = Processing \<or> status l = Completed"
    and "generateSasUrl w (storageName l) = Inr url"
    and "checkBlobExists w (storageName l) = Inr b"
  shows "getJobStatus w st i =
    (st, Response 200 (JobBody
       (l\<lparr>storageUrl := Some url, status := (if b then Completed else Processing),
          uploaded := Some b\<rparr>) ''Job has been processed''))"
  using assms by (auto simp: getJobStatus_def)

lemma getJobStatus_logged_other:
  assumes "getQueuedJob st i = None" and "getLoggedJob st i = Some l"
    and "status l \<noteq> Processing" and "status l \<noteq> Completed"
  shows "getJobStatus w st i = (st, Response 200 (JobBody l ''Job has been processed''))"
  using assms by (simp add: getJobStatus_def)

lemma getJobStatus_absent:
  assumes "getQueuedJob st i = None" and "getLoggedJob st i = None"
  shows "getJobStatus w st i = (st, Response 404 (ErrorBody ''Job not found''))"
  using assms by (simp add: getJobStatus_def)

lemma checkBlobExists_True: "checkBlobExists w n = Inr True \<longleftrightarrow> getProperties w n = Resolved"
  by (auto simp: checkBlobExists_def split: sdk_result.splits)

lemma checkResult_cases:
  "fst (checkResult w st i) = st \<or>
   (\<exists>l k. status l = Processing \<and> k < length (log st) \<and> log st ! k = l \<and>
      fst (checkResult w st i) =
        st\<lparr>log := (log st)[k := l\<lparr>status := Completed, completedAt := Some (now w)\<rparr>]\<rparr>)"
proof (cases "getLoggedJob st i")
  case None
  then show ?thesis by (simp add: checkResult_not_logged)
next
  case (Some l)
  show ?thesis
  proof (cases "status l = Processing \<and> checkBlobExists w (storageName l) = Inr True")
    case True
    then show ?thesis
      using checkResult_transition[OF Some, of w] by blast
  next
    case False
    then have "fst (checkResult w st i) = st"
      using Some by (auto simp: checkResult_def Let_def split: sum.splits)
    then show ?thesis by simp
  qed
qed

lemma forward_refl: "forward a a"
  by (simp add: forward_def)

lemma forward_error: "forward Error b \<longleftrightarrow> b = Error"
  by (auto simp: forward_def)

lemma checkResult_never_error:
  "bodyStatus (bodyOf (snd (checkResult w st i))) \<noteq> Some Error"
  by (auto simp: checkResult_def Let_def split: option.splits sum.splits)

lemma generateSasUrl_fresh: "generateSasUrl w n = Inr u \<Longrightarrow> fresh w u"
  by (auto simp: fresh_def generateSasUrl_def split: if_splits)

lemma submit_url_fresh:
  assumes "bodyUrl (bodyOf (snd (submitSequence w st r))) = Some u"
  shows "fresh w u"
proof (cases "generateSasUrl w (''proteins/'' @ uuid w @ ''.pdb'')")
  case (Inl e)
  then show ?thesis
    using assms by (simp add: submitSequence_def split: if_splits)
next
  case (Inr url)
  then have "u = url"
    using assms by (simp add: submitSequence_def Let_def split: if_splits)
  then show ?thesis
    using Inr generateSasUrl_fresh by blast
qed

lemma checkResult_url_fresh:
  assumes "bodyUrl (bodyOf (snd (checkResult w st i))) = Some u"
  shows "fresh w u"
  using assms generateSasUrl_fresh
  by (auto simp: checkResult_def Let_def split: option.splits sum.splits if_splits)

lemma failed_log_only:
  "removeFromQueue failedStore ''job-1'' = \<lparr>queue = [], log = [failedJob]\<rparr>"
  by (simp add: removeFromQueue_def failedStore_def queuedJob_def)

lemma find_append_skip:
  assumes "\<forall>x\<in>set xs. \<not> P x"
  shows "find P (xs @ ys) = find P ys"
  using assms by (induction xs) auto

lemma later_now: "now laterWorld = 1000 + 2 * day"
  by (simp add: laterWorld_def)

lemma failed_submission_lookup:
  assumes "isValidSequence (Str s)"
    and "generateSasUrl w (''proteins/'' @ uuid w @ ''.pdb'') = Inr url"
    and "sendToVm w = Inl e"
    and "\<not> inQueue st (uuid w)" and "\<not> inLog st (uuid w)"
  shows "getQueuedJob (fst (submitSequence w st (Str s))) (uuid w) = Some (newJob w s url) \<and>
    getLoggedJob (fst (submitSequence w st (Str s))) (uuid w) =
      Some ((newJob w s url)\<lparr>status := Error, processedAt := Some (now w),
        error := Some ''Failed to send to AlphaFold VM''\<rparr>)"
proof -
  have q: "\<forall>x\<in>set (queue st). jobId x \<noteq> uuid w"
    using assms(4) by (auto simp: inQueue_def image_iff)
  have l: "\<forall>x\<in>set (log st). jobId x \<noteq> uuid w"
    using assms(5) by (auto simp: inLog_def image_iff)
  have j: "jobId (newJob w s url) = uuid w"
    by (simp add: newJob_def)
  show ?thesis
    using submit_dispatch_failed[OF assms(1-3), of st]
      find_append_skip[of "queue st" "\<lambda>job. jobId job = uuid w"]
      find_append_skip[of "log st" "\<lambda>job. jobId job = uuid w"] q l j
    by (simp add: getQueuedJob_def getLoggedJob_def)
qed

lemma submit_dispatch_ok_moves_job:
  assumes "isValidSequence (Str s)"
    and "generateSasUrl w (''proteins/'' @ uuid w @ ''.pdb'') = Inr url"
    and "sendToVm w = Inr u"
  shows "\<not> inQueue (fst (submitSequence w st (Str s))) (uuid w) \<and>
         inLog (fst (submitSequence w st (Str s))) (uuid w)"
  using submit_dispatch_ok[OF assms, of st]
  by (auto simp: inQueue_def inLog_def newJob_def)

lemma list_all_take_nth:
  assumes "k \<le> length xs"
  shows "list_all P (take k xs) \<longleftrightarrow> (\<forall>j<k. P (xs ! j))"
  using assms by (simp add: list_all_length min_absorb2)

lemma first_index_find:
  assumes "k < length xs" and "P (xs ! k)" and "\<forall>j<k. \<not> P (xs ! j)"
  shows "find P xs = Some (xs ! k)"
  using assms by (auto simp: find_Some_iff)

lemma first_index_findIndex:
  assumes "k < length xs" and "P (xs ! k)" and "\<forall>j<k. \<not> P (xs ! j)"
  shows "findIndex P xs = Some k"
  using assms
proof (induction xs arbitrary: k)
  case Nil
  then show ?case by simp
next
  case (Cons x xs)
  show ?case
  proof (cases k)
    case 0
    then show ?thesis using Cons.prems by simp
  next
    case (Suc m)
    have nx: "\<not> P x"
      using Cons.prems(3) Suc by auto
    have "findIndex P xs = Some m"
    proof (rule Cons.IH)
      show "m < length xs" using Cons.prems(1) Suc by simp
      show "P (xs ! m)" using Cons.prems(2) Suc by simp
      show "\<forall>j<m. \<not> P (xs ! j)"
        using Cons.prems(3) Suc by auto
    qed
    then show ?thesis using nx Suc by simp
  qed
qed

lemma exists_first_index:
  assumes "\<exists>x\<in>set xs. P x"
  shows "\<exists>k<length xs. P (xs ! k) \<and> (\<forall>j<k. \<not> P (xs ! j))"
proof -
  obtain x where "find P xs = Some x"
    using assms by (cases "find P xs") (auto simp: find_None_set)
  then show ?thesis
    by (auto simp: find_Some_iff)
qed

lemma firstLogged_nth:
  "firstLogged st i k \<longleftrightarrow>
     k < length (log st) \<and> jobId (log st ! k) = i \<and> (\<forall>j<k. jobId (log st ! j) \<noteq> i)"
  by (auto simp: firstLogged_def list_all_take_nth)

lemma firstQueued_nth:
  "firstQueued st i k \<longleftrightarrow>
     k < length (queue st) \<and> jobId (queue st ! k) = i \<and> (\<forall>j<k. jobId (queue st ! j) \<noteq> i)"
  by (auto simp: firstQueued_def list_all_take_nth)

lemma inLog_firstLogged: "inLog st i \<longleftrightarrow> (\<exists>k. firstLogged st i k)"
proof
  assume "inLog st i"
  then have "\<exists>x\<in>set (log st). jobId x = i"
    by (auto simp: inLog_def)
  then show "\<exists>k. firstLogged st i k"
    using exists_first_index[of "log st" "\<lambda>job. jobId job = i"]
    by (auto simp: firstLogged_nth)
next
  assume "\<exists>k. firstLogged st i k"
  then show "inLog st i"
    by (auto simp: firstLogged_nth inLog_def)
qed

lemma inQueue_firstQueued: "inQueue st i \<longleftrightarrow> (\<exists>k. firstQueued st i k)"
proof
  assume "inQueue st i"
  then have "\<exists>x\<in>set (queue st). jobId x = i"
    by (auto simp: inQueue_def)
  then show "\<exists>k. firstQueued st i k"
    using exists_first_index[of "queue st" "\<lambda>job. jobId job = i"]
    by (auto simp: firstQueued_nth)
next
  assume "\<exists>k. firstQueued st i k"
  then show "inQueue st i"
    by (auto simp: firstQueued_nth inQueue_def)
qed

lemma firstLogged_lookup:
  assumes "firstLogged st i k"
  shows "getLoggedJob st i = Some (log st ! k)"
    and "findIndex (\<lambda>job. jobId job = i) (log st) = Some k"
  using assms first_index_find[of k "log st" "\<lambda>job. jobId job = i"]
    first_index_findIndex[of k "log st" "\<lambda>job. jobId job = i"]
  by (simp_all add: firstLogged_nth getLoggedJob_def)

lemma firstQueued_lookup:
  assumes "firstQueued st i k"
  shows "getQueuedJob st i = Some (queue st ! k)"
  using assms first_index_find[of k "queue st" "\<lambda>job. jobId job = i"]
  by (simp add: firstQueued_nth getQueuedJob_def)

lemma firstLogged_update:
  assumes "firstLogged st i k" and "jobId l' = i"
  shows "firstLogged (st\<lparr>log := (log st)[k := l']\<rparr>) i k"
  using assms by (auto simp: firstLogged_nth)

lemma checkResult_first_transition:
  assumes "firstLogged st i k" and "checkBlobExists w (storageName (log st ! k)) = Inr True"
    and "status (log st ! k) = Processing"
  shows "fst (checkResult w st i) =
     st\<lparr>log := (log st)[k := (log st ! k)\<lparr>status := Completed, completedAt := Some (now w)\<rparr>]\<rparr>"
  using assms firstLogged_lookup[OF assms(1)]
  by (simp add: checkResult_def updateLoggedJob_def spread_completion Let_def split: sum.splits)

lemma checkResult_404_iff: "code (snd (checkResult w st i)) = 404 \<longleftrightarrow> \<not> inLog st i"
  using getLoggedJob_None[of st i]
  by (auto simp: checkResult_def Let_def split: option.splits sum.splits)

lemma earlier_url:
  "generateSasUrl earlierWorld ''proteins/job-0.pdb'' =
     Inr \<lparr>sasBlob = ''proteins/job-0.pdb'', sasExpiresOn = 500 + day\<rparr>"
  by (simp add: generateSasUrl_def earlierWorld_def exampleWorld_def)

lemma earlier_send: "sendToVm earlierWorld = Inr ()"
  by (simp add: sendToVm_def getStorageAccountName_def getContainerName_def earlierWorld_def
      exampleWorld_def)

lemma run_earlier:
  "submitSequence earlierWorld emptyStore (Str exampleSequence) =
     (\<lparr>queue = [], log = [earlierJob]\<rparr>,
      Response 200 (SubmitBody ''job-0''
        \<lparr>sasBlob = ''proteins/job-0.pdb'', sasExpiresOn = 500 + day\<rparr>
        ''Sequence submitted successfully''))"
proof -
  have u: "uuid earlierWorld = ''job-0''" "now earlierWorld = 500"
    by (simp_all add: earlierWorld_def exampleWorld_def)
  show ?thesis
    using submit_dispatch_ok[of exampleSequence earlierWorld _ "()" emptyStore]
      exampleSequence_valid earlier_url earlier_send
    by (simp add: u newJob_def emptyStore_def earlierJob_def)
qed

lemma run_two:
  "submitSequence exampleWorld \<lparr>queue = [], log = [earlierJob]\<rparr> (Str exampleSequence) =
     (twoJobStore,
      Response 200 (SubmitBody ''job-1'' exampleUrl ''Sequence submitted successfully''))"
proof -
  have u: "uuid exampleWorld = ''job-1''" "now exampleWorld = 1000"
    by (simp_all add: exampleWorld_def)
  show ?thesis
    using submit_dispatch_ok[of exampleSequence exampleWorld exampleUrl "()"
        "\<lparr>queue = [], log = [earlierJob]\<rparr>"]
      exampleSequence_valid example_url example_send
    by (simp add: u newJob_def twoJobStore_def processingJob_def queuedJob_def)
qed

lemma two_reached:
  "fst (submitSequence exampleWorld
     (fst (submitSequence earlierWorld emptyStore (Str exampleSequence)))
     (Str exampleSequence)) = twoJobStore"
  by (simp add: run_earlier run_two)

lemma two_first: "firstLogged twoJobStore ''job-1'' (Suc 0)"
  by (simp add: firstLogged_def twoJobStore_def earlierJob_def processingJob_def queuedJob_def)

lemma two_nth: "log twoJobStore ! Suc 0 = processingJob"
  by (simp add: twoJobStore_def)

lemma two_not_queued: "\<not> inQueue twoJobStore i"
  by (simp add: inQueue_def twoJobStore_def)

lemma two_unknown: "\<not> inLog twoJobStore ''job-9''"
  by (simp add: inLog_def twoJobStore_def earlierJob_def processingJob_def queuedJob_def)

lemma getJobStatus_404_iff:
  "code (snd (getJobStatus w st i)) = 404 \<longleftrightarrow> \<not> inQueue st i \<and> \<not> inLog st i"
  using getQueuedJob_None[of st i] getLoggedJob_None[of st i]
  by (auto simp: getJobStatus_def split: option.splits sum.splits)

lemma submit_4xx_unchanged:
  assumes "400 \<le> code (snd (submitSequence w st r))" and "code (snd (submitSequence w st r)) < 500"
  shows "fst (submitSequence w st r) = st"
  using assms by (auto simp: submitSequence_def Let_def split: if_splits sum.splits)

lemma post_4xx_unchanged:
  assumes "400 \<le> code (snd (postSubmitSequence w st req))"
    and "code (snd (postSubmitSequence w st req)) < 500"
  shows "fst (postSubmitSequence w st req) = st"
proof (cases "bodyJson req")
  case NotJson
  then show ?thesis
    using assms submit_4xx_unchanged[of w st Missing] by (simp add: postSubmitSequence_def)
next
  case Malformed
  then show ?thesis
    by (simp add: postSubmitSequence_def)
next
  case (Parsed v)
  then show ?thesis
    using assms submit_4xx_unchanged[of w st v]
    by (simp add: postSubmitSequence_def split: if_splits)
qed

lemma post_within_limit:
  assumes "bodyJson req = Parsed v" and "bodyLength req \<le> jsonLimit"
  shows "postSubmitSequence w st req = submitSequence w st v"
  using assms by (simp add: postSubmitSequence_def)

lemma post_over_limit:
  assumes "bodyJson req \<noteq> NotJson" and "jsonLimit < bodyLength req"
  shows "postSubmitSequence w st req =
    (st, Response 413 (ErrorPage ''request entity too large''))"
  using assms by (cases "bodyJson req") (simp_all add: postSubmitSequence_def)

lemma submit_short:
  "submitSequence w st (Str (utf16 ''SHORT'')) =
     (st, Response 400 (ErrorBody
       ''Invalid protein sequence. Use standard amino acid codes (ACDEFGHIKLMNPQRSTVWY).''))"
  using short_invalid short_truthy
  by (simp add: submitSequence_def del: isValidSequence.simps truthy.simps)

lemma checkResult_exact_cases:
  "fst (checkResult w st i) = st \<or>
   (\<exists>k<length (log st). status (log st ! k) = Processing \<and>
      fst (checkResult w st i) =
        st\<lparr>log := (log st)[k := (log st ! k)\<lparr>status := Completed,
          completedAt := Some (now w)\<rparr>]\<rparr>)"
  using checkResult_cases[of w st i] by blast

lemma getJobStatus_reported:
  assumes "bodyStatus (bodyOf (snd (getJobStatus w st i))) = Some s"
  shows "(\<exists>m. firstQueued st i m \<and> s = status (queue st ! m)) \<or>
    (\<not> inQueue st i \<and>
     (\<exists>k. firstLogged st i k \<and>
        (if status (log st ! k) = Processing \<or> status (log st ! k) = Completed
         then s = Processing \<or> s = Completed
         else s = status (log st ! k))))"
proof (cases "inQueue st i")
  case True
  then obtain m where m: "firstQueued st i m"
    using inQueue_firstQueued by blast
  have "getJobStatus w st i =
      (st, Response 200 (JobBody (queue st ! m) ''Job is queued for processing''))"
    using getJobStatus_queued[OF firstQueued_lookup[OF m]] .
  then have "s = status (queue st ! m)"
    using assms by simp
  then show ?thesis
    using m by blast
next
  case False
  then have nq: "getQueuedJob st i = None"
    by (simp add: getQueuedJob_None)
  show ?thesis
  proof (cases "inLog st i")
    case True
    then obtain k where k: "firstLogged st i k"
      using inLog_firstLogged by blast
    have g: "getLoggedJob st i = Some (log st ! k)"
      using firstLogged_lookup(1)[OF k] .
    have "if status (log st ! k) = Processing \<or> status (log st ! k) = Completed
        then s = Processing \<or> s = Completed else s = status (log st ! k)"
      using assms nq g by (auto simp: getJobStatus_def split: sum.splits if_splits)
    then show ?thesis
      using False k by blast
  next
    case False
    then have "getJobStatus w st i = (st, Response 404 (ErrorBody ''Job not found''))"
      using getJobStatus_absent[OF nq] by (simp add: getLoggedJob_None)
    then show ?thesis
      using assms by simp
  qed
qed

section \<open>Claims\<close>

subsection \<open>C1: a job is in exactly one of queue and log after submission\<close>

text \<open>
  C1. The claim asks that after the submit handler has finished, the new \<open>jobId\<close> is in
  exactly one of the queue and the log, also when the dispatch to the predictor fails.
  The handler's \<open>catch\<close> branch appends the job to the log and, unlike the branch for a
  successful dispatch, does not call \<open>removeFromQueue\<close>. The theorem evaluates the handler
  on every valid submission whose dispatch fails: the new \<open>jobId\<close> is then in the queue
  and in the log at once.
\<close>

theorem C1_failed_dispatch_in_queue_and_log:
  assumes "isValidSequence r"
    and "generateSasUrl w (''proteins/'' @ uuid w @ ''.pdb'') = Inr url"
    and "sendToVm w = Inl e"
  shows "inQueue (fst (submitSequence w st r)) (uuid w) \<and>
         inLog (fst (submitSequence w st r)) (uuid w)"
proof -
  obtain s where r: "r = Str s"
    using valid_is_string[OF assms(1)] by blast
  show ?thesis
    using submit_dispatch_failed[of s w url e st] assms
    by (simp add: r inQueue_def inLog_def newJob_def del: isValidSequence.simps)
qed

theorem C1_failed_dispatch_witness:
  "isValidSequence (Str exampleSequence) \<and>
   generateSasUrl failingWorld (''proteins/'' @ uuid failingWorld @ ''.pdb'') = Inr exampleUrl \<and>
   sendToVm failingWorld = Inl (Failure ''axios.post rejected'') \<and>
   inQueue (fst (submitSequence failingWorld emptyStore (Str exampleSequence))) ''job-1'' \<and>
   inLog (fst (submitSequence failingWorld emptyStore (Str exampleSequence))) ''job-1''"
proof -
  have u: "uuid failingWorld = ''job-1''"
    by (simp add: failingWorld_def exampleWorld_def)
  have a: "generateSasUrl failingWorld (''proteins/'' @ uuid failingWorld @ ''.pdb'') = Inr exampleUrl"
    using failing_url by (simp add: u)
  show ?thesis
    using C1_failed_dispatch_in_queue_and_log[OF exampleSequence_valid a failing_send, of emptyStore]
      exampleSequence_valid a failing_send
    by (simp add: u del: isValidSequence.simps)
qed

subsection \<open>C2: checking for the result\<close>

text \<open>
  C2. \<open>checkResult\<close> consults the log only. The answer has status 404 exactly when no
  record of the log has the \<open>jobId\<close>, whatever the queue holds. A \<open>jobId\<close> that is in the
  log is found at its first record, wherever in the log that record stands. If the blob
  of that record does not exist, the answer is \<open>processing\<close> and the store is left as it
  was. If the blob exists (and the read URL can be generated), the answer is \<open>completed\<close>
  with the URL; if the stored status was \<open>processing\<close>, that record becomes \<open>completed\<close>
  with \<open>completedAt\<close> set to the instant of this request, nothing else in the store
  changes, and no later call, at whatever instant and whatever the state of the storage,
  changes the store again; if the stored status was not \<open>processing\<close>, the store is left
  as it was.
\<close>

theorem C2_checkResult:
  "(code (snd (checkResult w st i)) = 404 \<longleftrightarrow> \<not> inLog st i) \<and>
   (\<not> inLog st i \<longrightarrow>
      checkResult w st i = (st, Response 404 (ErrorBody ''Job not found''))) \<and>
   (inLog st i \<longrightarrow> (\<exists>n. firstLogged st i n)) \<and>
   (firstLogged st i k \<and> checkBlobExists w (storageName (log st ! k)) = Inr False \<longrightarrow>
      checkResult w st i =
        (st, Response 200 (ResultBody i Processing None ''Result is not available yet''))) \<and>
   (firstLogged st i k \<and> checkBlobExists w (storageName (log st ! k)) = Inr True \<and>
    generateSasUrl w (storageName (log st ! k)) = Inr url \<longrightarrow>
      snd (checkResult w st i) =
        Response 200 (ResultBody i Completed (Some url) ''Result is available'') \<and>
      (status (log st ! k) \<noteq> Processing \<longrightarrow> fst (checkResult w st i) = st) \<and>
      (status (log st ! k) = Processing \<longrightarrow>
         fst (checkResult w st i) =
           st\<lparr>log := (log st)[k := (log st ! k)\<lparr>status := Completed,
             completedAt := Some (now w)\<rparr>]\<rparr> \<and>
         firstLogged (fst (checkResult w st i)) i k \<and>
         getLoggedJob (fst (checkResult w st i)) i =
           Some ((log st ! k)\<lparr>status := Completed, completedAt := Some (now w)\<rparr>) \<and>
         (\<forall>w'. fst (checkResult w' (fst (checkResult w st i)) i) = fst (checkResult w st i))))"
proof (intro conjI impI)
  show "code (snd (checkResult w st i)) = 404 \<longleftrightarrow> \<not> inLog st i"
    by (rule checkResult_404_iff)
next
  assume "\<not> inLog st i"
  then show "checkResult w st i = (st, Response 404 (ErrorBody ''Job not found''))"
    using checkResult_not_logged[of st i w] by (simp add: getLoggedJob_None)
next
  assume "inLog st i"
  then show "\<exists>n. firstLogged st i n"
    by (simp add: inLog_firstLogged)
next
  assume a: "firstLogged st i k \<and> checkBlobExists w (storageName (log st ! k)) = Inr False"
  then have "getLoggedJob st i = Some (log st ! k)"
    using firstLogged_lookup(1) by blast
  then show "checkResult w st i =
      (st, Response 200 (ResultBody i Processing None ''Result is not available yet''))"
    using a checkResult_absent by blast
next
  assume a: "firstLogged st i k \<and> checkBlobExists w (storageName (log st ! k)) = Inr True \<and>
    generateSasUrl w (storageName (log st ! k)) = Inr url"
  then have f: "firstLogged st i k"
    by simp
  have g: "getLoggedJob st i = Some (log st ! k)"
    using firstLogged_lookup(1)[OF f] .
  show "snd (checkResult w st i) =
      Response 200 (ResultBody i Completed (Some url) ''Result is available'')"
    using a checkResult_present[OF g] by blast
  {
    assume "status (log st ! k) \<noteq> Processing"
    then show "fst (checkResult w st i) = st"
      using checkResult_unchanged[OF g] by blast
  }
  {
    assume p: "status (log st ! k) = Processing"
    let ?l' = "(log st ! k)\<lparr>status := Completed, completedAt := Some (now w)\<rparr>"
    show t: "fst (checkResult w st i) = st\<lparr>log := (log st)[k := ?l']\<rparr>"
      using checkResult_first_transition[OF f _ p] a by blast
    have j: "jobId ?l' = i"
      using f by (simp add: firstLogged_nth)
    show f': "firstLogged (fst (checkResult w st i)) i k"
      using firstLogged_update[OF f j] t by simp
    have "log (fst (checkResult w st i)) ! k = ?l'"
      using f t by (simp add: firstLogged_nth)
    then show g': "getLoggedJob (fst (checkResult w st i)) i = Some ?l'"
      using firstLogged_lookup(1)[OF f'] by simp
    show "\<forall>w'. fst (checkResult w' (fst (checkResult w st i)) i) = fst (checkResult w st i)"
      using checkResult_unchanged[OF g'] by simp
  }
qed

text \<open>
  The run for C2, on the store that the submissions of \<open>job-0\<close> and \<open>job-1\<close> leave, where
  the record of \<open>job-1\<close> stands behind that of \<open>job-0\<close>: an unknown \<open>jobId\<close> gets status
  404; \<open>job-1\<close> is reported as \<open>processing\<close> while its blob is missing; once the blob
  exists, the check at instant 5000 stores \<open>completed\<close> with \<open>completedAt\<close> 5000 in the
  second record and leaves the first alone, and a check two days later (with the blob
  gone again) leaves the store as it is.
\<close>

theorem C2_checkResult_witness:
  "fst (submitSequence exampleWorld
     (fst (submitSequence earlierWorld emptyStore (Str exampleSequence)))
     (Str exampleSequence)) = twoJobStore \<and>
   \<not> inLog twoJobStore ''job-9'' \<and>
   checkResult uploadedWorld twoJobStore ''job-9'' =
     (twoJobStore, Response 404 (ErrorBody ''Job not found'')) \<and>
   inLog twoJobStore ''job-1'' \<and> firstLogged twoJobStore ''job-1'' (Suc 0) \<and>
   code (snd (checkResult laterWorld twoJobStore ''job-1'')) \<noteq> 404 \<and>
   checkResult laterWorld twoJobStore ''job-1'' =
     (twoJobStore,
      Response 200 (ResultBody ''job-1'' Processing None ''Result is not available yet'')) \<and>
   checkResult uploadedWorld twoJobStore ''job-1'' =
     (\<lparr>queue = [],
        log = [earlierJob, processingJob\<lparr>status := Completed, completedAt := Some 5000\<rparr>]\<rparr>,
      Response 200 (ResultBody ''job-1'' Completed
        (Some \<lparr>sasBlob = ''proteins/job-1.pdb'', sasExpiresOn = 5000 + day\<rparr>)
        ''Result is available'')) \<and>
   fst (checkResult laterWorld (fst (checkResult uploadedWorld twoJobStore ''job-1'')) ''job-1'') =
     \<lparr>queue = [],
       log = [earlierJob, processingJob\<lparr>status := Completed, completedAt := Some 5000\<rparr>]\<rparr>"
proof -
  let ?u = "\<lparr>sasBlob = ''proteins/job-1.pdb'', sasExpiresOn = 5000 + day\<rparr>"
  have n: "now uploadedWorld = 5000"
    by (simp add: uploadedWorld_def)
  have il: "inLog twoJobStore ''job-1''"
    using two_first inLog_firstLogged by blast
  have a: "checkResult uploadedWorld twoJobStore ''job-9'' =
      (twoJobStore, Response 404 (ErrorBody ''Job not found''))"
    using C2_checkResult[of uploadedWorld twoJobStore "''job-9''"] two_unknown by simp
  have z: "code (snd (checkResult laterWorld twoJobStore ''job-1'')) \<noteq> 404"
    using C2_checkResult[of laterWorld twoJobStore "''job-1''"] il by simp
  have b: "checkResult laterWorld twoJobStore ''job-1'' =
      (twoJobStore,
       Response 200 (ResultBody ''job-1'' Processing None ''Result is not available yet''))"
    using C2_checkResult[of laterWorld twoJobStore "''job-1''" "Suc 0"] two_first blob_absent
    by simp
  have h: "firstLogged twoJobStore ''job-1'' (Suc 0) \<and>
      checkBlobExists uploadedWorld (storageName (log twoJobStore ! Suc 0)) = Inr True \<and>
      generateSasUrl uploadedWorld (storageName (log twoJobStore ! Suc 0)) = Inr ?u"
    by (simp add: two_first blob_present uploaded_url two_nth job_names)
  have p: "status (log twoJobStore ! Suc 0) = Processing"
    by (simp add: two_nth job_names)
  note T = C2_checkResult[of uploadedWorld twoJobStore "''job-1''" "Suc 0" ?u]
  have c1: "snd (checkResult uploadedWorld twoJobStore ''job-1'') =
      Response 200 (ResultBody ''job-1'' Completed (Some ?u) ''Result is available'')"
    using T h by blast
  have c2: "fst (checkResult uploadedWorld twoJobStore ''job-1'') =
      twoJobStore\<lparr>log := (log twoJobStore)[Suc 0 := (log twoJobStore ! Suc 0)\<lparr>status := Completed,
        completedAt := Some (now uploadedWorld)\<rparr>]\<rparr>"
    using T h p by blast
  have c3: "fst (checkResult laterWorld (fst (checkResult uploadedWorld twoJobStore ''job-1''))
      ''job-1'') = fst (checkResult uploadedWorld twoJobStore ''job-1'')"
    using T h p by blast
  have d: "fst (checkResult uploadedWorld twoJobStore ''job-1'') =
      \<lparr>queue = [],
        log = [earlierJob, processingJob\<lparr>status := Completed, completedAt := Some 5000\<rparr>]\<rparr>"
    using c2 by (simp add: two_nth n twoJobStore_def)
  have c: "checkResult uploadedWorld twoJobStore ''job-1'' =
      (\<lparr>queue = [],
         log = [earlierJob, processingJob\<lparr>status := Completed, completedAt := Some 5000\<rparr>]\<rparr>,
       Response 200 (ResultBody ''job-1'' Completed (Some ?u) ''Result is available''))"
    using c1 d by (metis prod.collapse)
  have e: "fst (checkResult laterWorld (fst (checkResult uploadedWorld twoJobStore ''job-1''))
      ''job-1'') =
      \<lparr>queue = [],
        log = [earlierJob, processingJob\<lparr>status := Completed, completedAt := Some 5000\<rparr>]\<rparr>"
    using c3 d by simp
  show ?thesis
    using a z b c e il two_first two_unknown two_reached by blast
qed

subsection \<open>C3: polling the status\<close>

text \<open>
  C3. \<open>getJobStatus\<close> looks in the queue first: a \<open>jobId\<close> in the queue is answered with
  its (first) queued record. A \<open>jobId\<close> that is not in the queue but in the log is found
  at its first logged record, wherever in the log that record stands; if that record has
  status \<open>processing\<close> or \<open>completed\<close>, the answer is the record with a newly generated
  URL, \<open>uploaded\<close> set to the outcome of the existence check, and status \<open>completed\<close> if
  and only if the blob exists, that is, the metadata call resolves (\<open>processing\<close>
  otherwise); this supposes that URL generation and the existence check do not throw.
  The answer has status 404 exactly when the \<open>jobId\<close> is in neither collection, and then
  carries the error \<open>Job not found\<close>. No case changes the store.
\<close>

theorem C3_getJobStatus:
  "(inQueue st i \<longrightarrow>
      (\<exists>q\<in>set (queue st). jobId q = i \<and> getQueuedJob st i = Some q \<and>
         getJobStatus w st i = (st, Response 200 (JobBody q ''Job is queued for processing'')))) \<and>
   (firstQueued st i m \<longrightarrow>
      getJobStatus w st i =
        (st, Response 200 (JobBody (queue st ! m) ''Job is queued for processing''))) \<and>
   (\<not> inQueue st i \<and> inLog st i \<longrightarrow> (\<exists>n. firstLogged st i n)) \<and>
   (\<not> inQueue st i \<and> firstLogged st i k \<and>
    (status (log st ! k) = Processing \<or> status (log st ! k) = Completed) \<and>
    generateSasUrl w (storageName (log st ! k)) = Inr url \<and>
    checkBlobExists w (storageName (log st ! k)) = Inr b \<longrightarrow>
      getJobStatus w st i =
        (st, Response 200 (JobBody
           ((log st ! k)\<lparr>storageUrl := Some url,
              status := (if b then Completed else Processing),
              uploaded := Some b\<rparr>) ''Job has been processed'')) \<and>
      (bodyStatus (bodyOf (snd (getJobStatus w st i))) = Some Completed \<longleftrightarrow>
         getProperties w (storageName (log st ! k)) = Resolved) \<and>
      (bodyStatus (bodyOf (snd (getJobStatus w st i))) = Some Processing \<longleftrightarrow>
         getProperties w (storageName (log st ! k)) \<noteq> Resolved)) \<and>
   (code (snd (getJobStatus w st i)) = 404 \<longleftrightarrow> \<not> inQueue st i \<and> \<not> inLog st i) \<and>
   (\<not> inQueue st i \<and> \<not> inLog st i \<longrightarrow>
      getJobStatus w st i = (st, Response 404 (ErrorBody ''Job not found'')))"
proof (intro conjI impI)
  assume "inQueue st i"
  then obtain q where q: "getQueuedJob st i = Some q"
    using getQueuedJob_None[of st i] by auto
  then have "jobId q = i \<and> q \<in> set (queue st)"
    by (rule getQueuedJob_Some)
  then show "\<exists>q\<in>set (queue st). jobId q = i \<and> getQueuedJob st i = Some q \<and>
      getJobStatus w st i = (st, Response 200 (JobBody q ''Job is queued for processing''))"
    using q getJobStatus_queued[OF q, of w] by blast
next
  assume "firstQueued st i m"
  then have "getQueuedJob st i = Some (queue st ! m)"
    by (rule firstQueued_lookup)
  then show "getJobStatus w st i =
      (st, Response 200 (JobBody (queue st ! m) ''Job is queued for processing''))"
    by (rule getJobStatus_queued)
next
  assume "\<not> inQueue st i \<and> inLog st i"
  then show "\<exists>n. firstLogged st i n"
    by (simp add: inLog_firstLogged)
next
  assume a: "\<not> inQueue st i \<and> firstLogged st i k \<and>
    (status (log st ! k) = Processing \<or> status (log st ! k) = Completed) \<and>
    generateSasUrl w (storageName (log st ! k)) = Inr url \<and>
    checkBlobExists w (storageName (log st ! k)) = Inr b"
  then have nq: "getQueuedJob st i = None"
    by (simp add: getQueuedJob_None)
  have g: "getLoggedJob st i = Some (log st ! k)"
    using a firstLogged_lookup(1) by blast
  show r: "getJobStatus w st i =
      (st, Response 200 (JobBody
         ((log st ! k)\<lparr>storageUrl := Some url, status := (if b then Completed else Processing),
            uploaded := Some b\<rparr>) ''Job has been processed''))"
    using getJobStatus_logged[OF nq g] a by blast
  have e: "b \<longleftrightarrow> getProperties w (storageName (log st ! k)) = Resolved"
    using a checkBlobExists_True[of w "storageName (log st ! k)"] by auto
  show "bodyStatus (bodyOf (snd (getJobStatus w st i))) = Some Completed \<longleftrightarrow>
      getProperties w (storageName (log st ! k)) = Resolved"
    using e by (simp add: r)
  show "bodyStatus (bodyOf (snd (getJobStatus w st i))) = Some Processing \<longleftrightarrow>
      getProperties w (storageName (log st ! k)) \<noteq> Resolved"
    using e by (simp add: r)
next
  show "code (snd (getJobStatus w st i)) = 404 \<longleftrightarrow> \<not> inQueue st i \<and> \<not> inLog st i"
    by (rule getJobStatus_404_iff)
next
  assume "\<not> inQueue st i \<and> \<not> inLog st i"
  then show "getJobStatus w st i = (st, Response 404 (ErrorBody ''Job not found''))"
    using getJobStatus_absent[of st i w] by (simp add: getQueuedJob_None getLoggedJob_None)
qed

text \<open>
  The run for C3: the job left in the queue by a failed dispatch is answered from the
  queue. On the store that the submissions of \<open>job-0\<close> and \<open>job-1\<close> leave, where the
  record of \<open>job-1\<close> stands behind that of \<open>job-0\<close>, \<open>job-1\<close> is answered as \<open>processing\<close>
  while its blob is missing and as \<open>completed\<close> once it exists; an unknown \<open>jobId\<close> gets
  status 404.
\<close>

theorem C3_getJobStatus_witness:
  "fst (submitSequence failingWorld emptyStore (Str exampleSequence)) = failedStore \<and>
   inQueue failedStore ''job-1'' \<and> firstQueued failedStore ''job-1'' 0 \<and>
   getJobStatus laterWorld failedStore ''job-1'' =
     (failedStore, Response 200 (JobBody queuedJob ''Job is queued for processing'')) \<and>
   fst (submitSequence exampleWorld
     (fst (submitSequence earlierWorld emptyStore (Str exampleSequence)))
     (Str exampleSequence)) = twoJobStore \<and>
   \<not> inQueue twoJobStore ''job-1'' \<and> inLog twoJobStore ''job-1'' \<and>
   firstLogged twoJobStore ''job-1'' (Suc 0) \<and>
   code (snd (getJobStatus laterWorld twoJobStore ''job-1'')) \<noteq> 404 \<and>
   getJobStatus laterWorld twoJobStore ''job-1'' =
     (twoJobStore, Response 200 (JobBody
        (processingJob\<lparr>storageUrl :=
             Some \<lparr>sasBlob = ''proteins/job-1.pdb'', sasExpiresOn = 1000 + 3 * day\<rparr>,
           status := Processing, uploaded := Some False\<rparr>) ''Job has been processed'')) \<and>
   getJobStatus uploadedWorld twoJobStore ''job-1'' =
     (twoJobStore, Response 200 (JobBody
        (processingJob\<lparr>storageUrl :=
             Some \<lparr>sasBlob = ''proteins/job-1.pdb'', sasExpiresOn = 5000 + day\<rparr>,
           status := Completed, uploaded := Some True\<rparr>) ''Job has been processed'')) \<and>
   \<not> inQueue twoJobStore ''job-9'' \<and> \<not> inLog twoJobStore ''job-9'' \<and>
   getJobStatus exampleWorld twoJobStore ''job-9'' =
     (twoJobStore, Response 404 (ErrorBody ''Job not found''))"
proof -
  let ?u3 = "\<lparr>sasBlob = ''proteins/job-1.pdb'', sasExpiresOn = 1000 + 3 * day\<rparr>"
  let ?u5 = "\<lparr>sasBlob = ''proteins/job-1.pdb'', sasExpiresOn = 5000 + day\<rparr>"
  have q: "inQueue failedStore ''job-1''"
    by (simp add: inQueue_def failedStore_def queuedJob_def)
  have fq: "firstQueued failedStore ''job-1'' 0"
    by (simp add: firstQueued_def failedStore_def queuedJob_def)
  have il: "inLog twoJobStore ''job-1''"
    using two_first inLog_firstLogged by blast
  have a: "getJobStatus laterWorld failedStore ''job-1'' =
     (failedStore, Response 200 (JobBody queuedJob ''Job is queued for processing''))"
    using C3_getJobStatus[where st = failedStore and i = "''job-1''" and w = laterWorld
        and m = 0] fq
    by (simp add: failedStore_def)
  have z: "code (snd (getJobStatus laterWorld twoJobStore ''job-1'')) \<noteq> 404"
    using C3_getJobStatus[where st = twoJobStore and i = "''job-1''" and w = laterWorld] il
    by simp
  have h3: "\<not> inQueue twoJobStore ''job-1'' \<and> firstLogged twoJobStore ''job-1'' (Suc 0) \<and>
      (status (log twoJobStore ! Suc 0) = Processing \<or>
       status (log twoJobStore ! Suc 0) = Completed) \<and>
      generateSasUrl laterWorld (storageName (log twoJobStore ! Suc 0)) = Inr ?u3 \<and>
      checkBlobExists laterWorld (storageName (log twoJobStore ! Suc 0)) = Inr False"
    by (simp add: two_not_queued two_first two_nth job_names later_url blob_absent)
  have b: "getJobStatus laterWorld twoJobStore ''job-1'' =
     (twoJobStore, Response 200 (JobBody
        (processingJob\<lparr>storageUrl := Some ?u3, status := Processing,
           uploaded := Some False\<rparr>) ''Job has been processed''))"
    using C3_getJobStatus[where st = twoJobStore and i = "''job-1''" and w = laterWorld
        and k = "Suc 0" and url = ?u3 and b = False] h3
    by (simp add: two_nth)
  have h5: "\<not> inQueue twoJobStore ''job-1'' \<and> firstLogged twoJobStore ''job-1'' (Suc 0) \<and>
      (status (log twoJobStore ! Suc 0) = Processing \<or>
       status (log twoJobStore ! Suc 0) = Completed) \<and>
      generateSasUrl uploadedWorld (storageName (log twoJobStore ! Suc 0)) = Inr ?u5 \<and>
      checkBlobExists uploadedWorld (storageName (log twoJobStore ! Suc 0)) = Inr True"
    by (simp add: two_not_queued two_first two_nth job_names uploaded_url blob_present)
  have c: "getJobStatus uploadedWorld twoJobStore ''job-1'' =
     (twoJobStore, Response 200 (JobBody
        (processingJob\<lparr>storageUrl := Some ?u5, status := Completed,
           uploaded := Some True\<rparr>) ''Job has been processed''))"
    using C3_getJobStatus[where st = twoJobStore and i = "''job-1''" and w = uploadedWorld
        and k = "Suc 0" and url = ?u5 and b = True] h5
    by (simp add: two_nth)
  have d: "getJobStatus exampleWorld twoJobStore ''job-9'' =
     (twoJobStore, Response 404 (ErrorBody ''Job not found''))"
    using C3_getJobStatus[where st = twoJobStore and i = "''job-9''" and w = exampleWorld]
      two_not_queued two_unknown by simp
  show ?thesis
    using q fq il a z b c d two_not_queued two_unknown two_first two_reached run_failure_store
    by simp
qed

subsection \<open>C4: a failed dispatch and what the client sees of it\<close>

text \<open>
  C4. The claim asks that a valid submission whose dispatch fails is still answered with
  status 200, that the job is recorded with status \<open>error\<close> and a message, and that the
  failure shows in a later status poll. The first two hold. The third does not: the
  \<open>catch\<close> branch leaves the job in the queue (see C1), so for a new \<open>jobId\<close> every later
  \<open>getJobStatus\<close> answers from the queue, with the record written before the dispatch
  (status \<open>queued\<close>, no error message), and \<open>checkResult\<close> never reports \<open>error\<close>.
\<close>

theorem C4_failed_dispatch:
  assumes "isValidSequence r"
    and "generateSasUrl w (''proteins/'' @ uuid w @ ''.pdb'') = Inr url"
    and "sendToVm w = Inl e"
    and "\<not> inQueue st (uuid w)" and "\<not> inLog st (uuid w)"
  shows "snd (submitSequence w st r) =
      Response 200 (SubmitBody (uuid w) url ''Sequence submitted successfully'') \<and>
    (\<exists>l. getLoggedJob (fst (submitSequence w st r)) (uuid w) = Some l \<and> status l = Error \<and>
         error l = Some ''Failed to send to AlphaFold VM'') \<and>
    (\<forall>w'. \<exists>q. getJobStatus w' (fst (submitSequence w st r)) (uuid w) =
         (fst (submitSequence w st r), Response 200 (JobBody q ''Job is queued for processing'')) \<and>
         status q = Queued \<and> error q = None) \<and>
    (\<forall>w'. bodyStatus (bodyOf (snd (checkResult w' (fst (submitSequence w st r)) (uuid w)))) \<noteq>
         Some Error)"
proof -
  obtain s where r: "r = Str s"
    using valid_is_string[OF assms(1)] by blast
  have v: "isValidSequence (Str s)"
    using assms(1) r by simp
  have look: "getQueuedJob (fst (submitSequence w st r)) (uuid w) = Some (newJob w s url)"
    "getLoggedJob (fst (submitSequence w st r)) (uuid w) =
      Some ((newJob w s url)\<lparr>status := Error, processedAt := Some (now w),
        error := Some ''Failed to send to AlphaFold VM''\<rparr>)"
    using failed_submission_lookup[OF v assms(2-5)] r by simp_all
  have a: "snd (submitSequence w st r) =
      Response 200 (SubmitBody (uuid w) url ''Sequence submitted successfully'')"
    using submit_dispatch_failed[OF v assms(2,3), of st] r by simp
  have b: "\<exists>l. getLoggedJob (fst (submitSequence w st r)) (uuid w) = Some l \<and> status l = Error \<and>
         error l = Some ''Failed to send to AlphaFold VM''"
    using look(2) by simp
  have c: "\<exists>q. getJobStatus w' (fst (submitSequence w st r)) (uuid w) =
         (fst (submitSequence w st r), Response 200 (JobBody q ''Job is queued for processing'')) \<and>
         status q = Queued \<and> error q = None" for w'
    using getJobStatus_queued[OF look(1), of w'] by (simp add: newJob_def)
  show ?thesis
    using a b c checkResult_never_error by blast
qed

text \<open>
  The run for C4: the submission whose POST is rejected is answered like a successful one;
  the log holds the job with status \<open>error\<close>; two days later the status poll still
  answers \<open>queued\<close>, and the result check answers \<open>processing\<close>.
\<close>

theorem C4_failed_dispatch_witness:
  "isValidSequence (Str exampleSequence) \<and>
   generateSasUrl failingWorld (''proteins/'' @ uuid failingWorld @ ''.pdb'') = Inr exampleUrl \<and>
   sendToVm failingWorld = Inl (Failure ''axios.post rejected'') \<and>
   \<not> inQueue emptyStore (uuid failingWorld) \<and> \<not> inLog emptyStore (uuid failingWorld) \<and>
   submitSequence failingWorld emptyStore (Str exampleSequence) =
     (failedStore,
      Response 200 (SubmitBody ''job-1'' exampleUrl ''Sequence submitted successfully'')) \<and>
   snd (submitSequence exampleWorld emptyStore (Str exampleSequence)) =
     Response 200 (SubmitBody ''job-1'' exampleUrl ''Sequence submitted successfully'') \<and>
   getLoggedJob failedStore ''job-1'' = Some failedJob \<and> status failedJob = Error \<and>
   error failedJob = Some ''Failed to send to AlphaFold VM'' \<and>
   getJobStatus laterWorld failedStore ''job-1'' =
     (failedStore, Response 200 (JobBody queuedJob ''Job is queued for processing'')) \<and>
   status queuedJob = Queued \<and> error queuedJob = None \<and>
   bodyStatus (bodyOf (snd (checkResult laterWorld failedStore ''job-1''))) = Some Processing"
proof -
  have u: "uuid failingWorld = ''job-1''"
    by (simp add: failingWorld_def exampleWorld_def)
  have g: "generateSasUrl failingWorld (''proteins/'' @ uuid failingWorld @ ''.pdb'') = Inr exampleUrl"
    using failing_url by (simp add: u)
  have ne: "\<not> inQueue emptyStore (uuid failingWorld)" "\<not> inLog emptyStore (uuid failingWorld)"
    by (simp_all add: inQueue_def inLog_def emptyStore_def)
  have t: "(\<forall>w'. \<exists>q. getJobStatus w' failedStore ''job-1'' =
         (failedStore, Response 200 (JobBody q ''Job is queued for processing'')) \<and>
         status q = Queued \<and> error q = None) \<and>
      (\<forall>w'. bodyStatus (bodyOf (snd (checkResult w' failedStore ''job-1''))) \<noteq> Some Error)"
    using C4_failed_dispatch[OF exampleSequence_valid g failing_send ne]
    by (simp add: run_failure_store u)
  have p: "getJobStatus laterWorld failedStore ''job-1'' =
     (failedStore, Response 200 (JobBody queuedJob ''Job is queued for processing''))"
    using getJobStatus_queued[OF failed_queued] by simp
  have c: "bodyStatus (bodyOf (snd (checkResult laterWorld failedStore ''job-1''))) = Some Processing"
    using checkResult_absent[OF failed_logged, of laterWorld] blob_absent by simp
  have e: "error failedJob = Some ''Failed to send to AlphaFold VM''" "error queuedJob = None"
    by (simp_all add: failedJob_def queuedJob_def)
  show ?thesis
    using t exampleSequence_valid g failing_send ne p c e failed_logged
    by (simp add: run_failure_store run_success_store job_names del: isValidSequence.simps)
qed

subsection \<open>C5: sequences without amino-acid codes are rejected\<close>

text \<open>
  C5, as stated, fails: the claim takes the set \<open>ACDEFGHIKLMNPQRSTVWY\<close> literally, and the
  lower-case string \<open>acd\<close> has no character in it, yet the validator upper-cases each
  character before the test, so the submission is accepted and logged.
\<close>

theorem C5_lower_case_counterexample:
  "set (utf16 ''acd'') \<inter> set validAminoAcids = {} \<and>
   submitSequence exampleWorld emptyStore (Str (utf16 ''acd'')) =
     (\<lparr>queue = [], log = [processingJob\<lparr>sequence := utf16 ''acd''\<rparr>]\<rparr>,
      Response 200 (SubmitBody ''job-1'' exampleUrl ''Sequence submitted successfully''))"
proof -
  have v: "isValidSequence (Str (utf16 ''acd''))"
    by code_simp
  have u: "uuid exampleWorld = ''job-1''" "now exampleWorld = 1000"
    by (simp_all add: exampleWorld_def)
  have d: "set (utf16 ''acd'') \<inter> set validAminoAcids = {}"
    by (simp add: valid_units utf16_def)
  show ?thesis
    using submit_dispatch_ok[of "utf16 ''acd''" exampleWorld exampleUrl "()" emptyStore]
      v example_url example_send d
    by (simp add: u newJob_def emptyStore_def processingJob_def queuedJob_def
        del: isValidSequence.simps)
qed

text \<open>
  C5, amended: a sequence in which no character has an upper-case form that occurs in
  \<open>ACDEFGHIKLMNPQRSTVWY\<close> (the empty sequence included) is answered with status 400, and
  the store is left as it was.
\<close>

theorem C5_rejected_after_uppercasing:
  assumes "\<forall>c\<in>set s. \<not> includes_str validAminoAcids (toUpperCase c)"
  shows "fst (submitSequence w st (Str s)) = st \<and>
         code (snd (submitSequence w st (Str s))) = 400"
proof -
  have "\<not> isValidSequence (Str s)"
    using assms by (cases s) auto
  then show ?thesis
    by (rule submit_rejected)
qed

theorem C5_rejected_witness:
  "list_all (\<lambda>c. \<not> includes_str validAminoAcids (toUpperCase c)) (utf16 ''bjouxz 123'') \<and>
   fst (submitSequence exampleWorld emptyStore (Str (utf16 ''bjouxz 123''))) = emptyStore \<and>
   code (snd (submitSequence exampleWorld emptyStore (Str (utf16 ''bjouxz 123'')))) = 400"
proof -
  have h: "\<forall>c\<in>set (utf16 ''bjouxz 123''). \<not> includes_str validAminoAcids (toUpperCase c)"
    by (simp add: utf16_def toUpperCase_def valid_units)
  show ?thesis
    using C5_rejected_after_uppercasing[OF h, of exampleWorld emptyStore] h
    by (simp add: list_all_iff)
qed

subsection \<open>C6: sequences of the wrong length\<close>

text \<open>
  C6, as stated, fails. The handler checks no length: the five-letter sequence \<open>ACDEF\<close> is
  accepted with status 200 and logged. \<open>SHORT\<close> is answered with status 400, but for its
  letter \<open>O\<close>, with the message for invalid amino-acid codes, not one about its length.
\<close>

theorem C6_undersized_counterexample:
  "length (utf16 ''ACDEF'') = 5 \<and>
   submitSequence exampleWorld emptyStore (Str (utf16 ''ACDEF'')) =
     (\<lparr>queue = [], log = [processingJob\<lparr>sequence := utf16 ''ACDEF''\<rparr>]\<rparr>,
      Response 200 (SubmitBody ''job-1'' exampleUrl ''Sequence submitted successfully'')) \<and>
   snd (submitSequence exampleWorld emptyStore (Str (utf16 ''SHORT''))) =
     Response 400 (ErrorBody
       ''Invalid protein sequence. Use standard amino acid codes (ACDEFGHIKLMNPQRSTVWY).'')"
proof -
  have v: "isValidSequence (Str (utf16 ''ACDEF''))"
    by code_simp
  have u: "uuid exampleWorld = ''job-1''" "now exampleWorld = 1000"
    by (simp_all add: exampleWorld_def)
  have l: "length (utf16 ''ACDEF'') = 5"
    by (simp add: utf16_def)
  have a: "submitSequence exampleWorld emptyStore (Str (utf16 ''ACDEF'')) =
     (\<lparr>queue = [], log = [processingJob\<lparr>sequence := utf16 ''ACDEF''\<rparr>]\<rparr>,
      Response 200 (SubmitBody ''job-1'' exampleUrl ''Sequence submitted successfully''))"
    using submit_dispatch_ok[of "utf16 ''ACDEF''" exampleWorld exampleUrl "()" emptyStore]
      v example_url example_send
    by (simp add: u newJob_def emptyStore_def processingJob_def queuedJob_def
        del: isValidSequence.simps)
  have b: "snd (submitSequence exampleWorld emptyStore (Str (utf16 ''SHORT''))) =
     Response 400 (ErrorBody
       ''Invalid protein sequence. Use standard amino acid codes (ACDEFGHIKLMNPQRSTVWY).'')"
    using short_invalid short_truthy
    by (simp add: submitSequence_def del: isValidSequence.simps truthy.simps)
  show ?thesis
    using l a b by blast
qed

text \<open>
  C6, amended, for the endpoint as the server mounts it, behind the JSON body parser.
  A request with the sequence \<open>SHORT\<close> is answered with status 400 and the message for
  invalid amino-acid codes. The only bound on size is the parser's: a JSON body of more
  than 100kb is answered with status 413 before the handler runs. Within that bound the
  handler checks no length: a non-empty sequence of amino-acid codes is accepted with
  status 200 and recorded, however short or long it is (the bounds of 10 and 1000
  characters are checked by the client form only). Every request that is answered with
  a status from 400 to 499 leaves the store as it was.
\<close>

theorem C6_no_length_check:
  "(bodyJson req = Parsed (Str (utf16 ''SHORT'')) \<and> bodyLength req \<le> jsonLimit \<longrightarrow>
      postSubmitSequence w st req =
        (st, Response 400 (ErrorBody
          ''Invalid protein sequence. Use standard amino acid codes (ACDEFGHIKLMNPQRSTVWY).''))) \<and>
   (bodyJson req \<noteq> NotJson \<and> jsonLimit < bodyLength req \<longrightarrow>
      postSubmitSequence w st req =
        (st, Response 413 (ErrorPage ''request entity too large''))) \<and>
   (bodyJson req = Parsed (Str s) \<and> bodyLength req \<le> jsonLimit \<and>
    s \<noteq> [] \<and> set s \<subseteq> set validAminoAcids \<and>
    generateSasUrl w (''proteins/'' @ uuid w @ ''.pdb'') = Inr url \<longrightarrow>
      code (snd (postSubmitSequence w st req)) = 200 \<and>
      inLog (fst (postSubmitSequence w st req)) (uuid w)) \<and>
   (400 \<le> code (snd (postSubmitSequence w st req)) \<and>
    code (snd (postSubmitSequence w st req)) < 500 \<longrightarrow>
      fst (postSubmitSequence w st req) = st)"
proof (intro conjI impI)
  assume "bodyJson req = Parsed (Str (utf16 ''SHORT'')) \<and> bodyLength req \<le> jsonLimit"
  then show "postSubmitSequence w st req =
      (st, Response 400 (ErrorBody
        ''Invalid protein sequence. Use standard amino acid codes (ACDEFGHIKLMNPQRSTVWY).''))"
    using post_within_limit[of req _ w st] submit_short[of w st] by simp
next
  assume "bodyJson req \<noteq> NotJson \<and> jsonLimit < bodyLength req"
  then show "postSubmitSequence w st req =
      (st, Response 413 (ErrorPage ''request entity too large''))"
    using post_over_limit by blast
next
  assume a: "bodyJson req = Parsed (Str s) \<and> bodyLength req \<le> jsonLimit \<and>
    s \<noteq> [] \<and> set s \<subseteq> set validAminoAcids \<and>
    generateSasUrl w (''proteins/'' @ uuid w @ ''.pdb'') = Inr url"
  then have p: "postSubmitSequence w st req = submitSequence w st (Str s)"
    using post_within_limit by blast
  have v: "isValidSequence (Str s)"
    using a letters_valid by blast
  show "code (snd (postSubmitSequence w st req)) = 200"
    using submit_accepted[OF v, of w url st] a by (simp add: p)
  show "inLog (fst (postSubmitSequence w st req)) (uuid w)"
    using submit_accepted[OF v, of w url st] a by (simp add: p)
next
  assume "400 \<le> code (snd (postSubmitSequence w st req)) \<and>
    code (snd (postSubmitSequence w st req)) < 500"
  then show "fst (postSubmitSequence w st req) = st"
    using post_4xx_unchanged by blast
qed

text \<open>
  The run for C6: the request with \<open>SHORT\<close> is answered with status 400 and leaves the
  store empty; the request with 1001 letters \<open>A\<close>, a body of 1016 bytes, is accepted and
  logged; the request with 200000 letters \<open>A\<close>, a body of more than 100kb, is answered
  with status 413 and leaves the store empty.
\<close>

theorem C6_no_length_check_witness:
  "bodyLength shortRequest \<le> jsonLimit \<and>
   postSubmitSequence exampleWorld emptyStore shortRequest =
     (emptyStore, Response 400 (ErrorBody
        ''Invalid protein sequence. Use standard amino acid codes (ACDEFGHIKLMNPQRSTVWY).'')) \<and>
   length longSequence = 1001 \<and> longSequence \<noteq> [] \<and>
   set longSequence \<subseteq> set validAminoAcids \<and>
   bodyLength longRequest \<le> jsonLimit \<and>
   generateSasUrl exampleWorld (''proteins/'' @ uuid exampleWorld @ ''.pdb'') = Inr exampleUrl \<and>
   code (snd (postSubmitSequence exampleWorld emptyStore longRequest)) = 200 \<and>
   inLog (fst (postSubmitSequence exampleWorld emptyStore longRequest)) ''job-1'' \<and>
   jsonLimit < bodyLength hugeRequest \<and>
   postSubmitSequence exampleWorld emptyStore hugeRequest =
     (emptyStore, Response 413 (ErrorPage ''request entity too large''))"
proof -
  have u: "uuid exampleWorld = ''job-1''"
    by (simp add: exampleWorld_def)
  have g: "generateSasUrl exampleWorld (''proteins/'' @ uuid exampleWorld @ ''.pdb'') = Inr exampleUrl"
    using example_url by (simp add: u)
  have sr: "bodyJson shortRequest = Parsed (Str (utf16 ''SHORT''))" "bodyLength shortRequest \<le> jsonLimit"
    by (simp_all add: shortRequest_def jsonLimit_def)
  have lr: "bodyJson longRequest = Parsed (Str longSequence)" "bodyLength longRequest \<le> jsonLimit"
    by (simp_all add: longRequest_def jsonLimit_def)
  have hr: "bodyJson hugeRequest \<noteq> NotJson" "jsonLimit < bodyLength hugeRequest"
    by (simp_all add: hugeRequest_def jsonLimit_def)
  have n: "length longSequence = 1001" "longSequence \<noteq> []"
    by (simp_all add: longSequence_def)
  have m: "set longSequence \<subseteq> set validAminoAcids"
    by (simp add: longSequence_def valid_units)
  have a: "postSubmitSequence exampleWorld emptyStore shortRequest =
     (emptyStore, Response 400 (ErrorBody
        ''Invalid protein sequence. Use standard amino acid codes (ACDEFGHIKLMNPQRSTVWY).''))"
    using C6_no_length_check[where req = shortRequest and w = exampleWorld and st = emptyStore]
      sr by blast
  have b: "code (snd (postSubmitSequence exampleWorld emptyStore longRequest)) = 200 \<and>
      inLog (fst (postSubmitSequence exampleWorld emptyStore longRequest)) (uuid exampleWorld)"
    using C6_no_length_check[where req = longRequest and w = exampleWorld and st = emptyStore
        and s = longSequence and url = exampleUrl] lr n m g by blast
  have c: "postSubmitSequence exampleWorld emptyStore hugeRequest =
     (emptyStore, Response 413 (ErrorPage ''request entity too large''))"
    using C6_no_length_check[where req = hugeRequest and w = exampleWorld and st = emptyStore]
      hr by blast
  show ?thesis
    using a b c sr lr hr n m g by (simp add: u)
qed

subsection \<open>C7: the status moves forward, and \<open>error\<close> is final\<close>

text \<open>
  C7, as stated, fails. After the submission whose dispatch failed, the job is logged
  with status \<open>error\<close>, and \<open>checkResult\<close> reports \<open>processing\<close> for it while the blob is
  missing and \<open>completed\<close> once a blob of that name exists: its answer is computed from
  the existence of the blob alone.
\<close>

theorem C7_error_reported_otherwise:
  "fst (submitSequence failingWorld emptyStore (Str exampleSequence)) = failedStore \<and>
   getLoggedJob failedStore ''job-1'' = Some failedJob \<and> status failedJob = Error \<and>
   bodyStatus (bodyOf (snd (checkResult laterWorld failedStore ''job-1''))) = Some Processing \<and>
   bodyStatus (bodyOf (snd (checkResult uploadedWorld failedStore ''job-1''))) = Some Completed"
proof -
  have a: "checkResult laterWorld failedStore ''job-1'' =
      (failedStore,
       Response 200 (ResultBody ''job-1'' Processing None ''Result is not available yet''))"
    using checkResult_absent[OF failed_logged, of laterWorld] blob_absent by simp
  have b: "snd (checkResult uploadedWorld failedStore ''job-1'') =
      Response 200 (ResultBody ''job-1'' Completed
        (Some \<lparr>sasBlob = ''proteins/job-1.pdb'', sasExpiresOn = 5000 + day\<rparr>)
        ''Result is available'')"
    using checkResult_present[OF failed_logged, of uploadedWorld] blob_present uploaded_url
    by (simp add: job_names)
  show ?thesis
    using a b failed_logged by (simp add: run_failure_store job_names)
qed

text \<open>
  C7, amended. The stored status only moves forward: \<open>getJobStatus\<close> never changes the
  store; \<open>checkResult\<close> leaves the queue as it is and every logged record as it is, but
  for the one step that takes a record from \<open>processing\<close> to \<open>completed\<close> and sets its
  \<open>completedAt\<close>, so a record whose stored status is \<open>error\<close> or \<open>completed\<close> is never
  changed. The status that \<open>checkResult\<close> reports is computed from the existence of the
  blob alone, whatever the stored status: \<open>processing\<close> when the blob of the first logged
  record is missing, \<open>completed\<close> when it exists (and the read URL can be generated). The
  status that \<open>getJobStatus\<close> reports is the stored status of the record it finds, the
  first of the queue or else the first of the log, except that for a logged record
  stored as \<open>processing\<close> or \<open>completed\<close> it reports one of these two; so it reports
  neither for a record stored as \<open>error\<close>.
\<close>

theorem C7_stored_status_forward:
  "fst (getJobStatus w st i) = st \<and>
   queue (fst (checkResult w st i)) = queue st \<and>
   list_all2 (\<lambda>j j'. (j' = j \<or>
                  (status j = Processing \<and>
                   j' = j\<lparr>status := Completed, completedAt := Some (now w)\<rparr>)) \<and>
                jobId j' = jobId j \<and> forward (status j) (status j') \<and>
                (status j = Error \<longrightarrow> j' = j) \<and> (status j = Completed \<longrightarrow> j' = j))
     (log st) (log (fst (checkResult w st i))) \<and>
   (firstLogged st i k \<and> checkBlobExists w (storageName (log st ! k)) = Inr False \<longrightarrow>
      bodyStatus (bodyOf (snd (checkResult w st i))) = Some Processing) \<and>
   (firstLogged st i k \<and> checkBlobExists w (storageName (log st ! k)) = Inr True \<and>
    generateSasUrl w (storageName (log st ! k)) = Inr url \<longrightarrow>
      bodyStatus (bodyOf (snd (checkResult w st i))) = Some Completed) \<and>
   bodyStatus (bodyOf (snd (checkResult w st i))) \<noteq> Some Error \<and>
   (bodyStatus (bodyOf (snd (getJobStatus w st i))) = Some s \<longrightarrow>
      (\<exists>m. firstQueued st i m \<and> s = status (queue st ! m)) \<or>
      (\<not> inQueue st i \<and>
       (\<exists>n. firstLogged st i n \<and>
          (if status (log st ! n) = Processing \<or> status (log st ! n) = Completed
           then s = Processing \<or> s = Completed
           else s = status (log st ! n)))))"
proof (intro conjI impI)
  show "fst (getJobStatus w st i) = st"
    by (rule getJobStatus_store)
next
  show "queue (fst (checkResult w st i)) = queue st"
    using checkResult_cases[of w st i] by auto
next
  let ?R = "\<lambda>j j'. (j' = j \<or>
       (status j = Processing \<and> j' = j\<lparr>status := Completed, completedAt := Some (now w)\<rparr>)) \<and>
     jobId j' = jobId j \<and> forward (status j) (status j') \<and>
     (status j = Error \<longrightarrow> j' = j) \<and> (status j = Completed \<longrightarrow> j' = j)"
  consider (same) "fst (checkResult w st i) = st"
    | (moved) k where "k < length (log st)" "status (log st ! k) = Processing"
        "fst (checkResult w st i) =
           st\<lparr>log := (log st)[k := (log st ! k)\<lparr>status := Completed,
             completedAt := Some (now w)\<rparr>]\<rparr>"
    using checkResult_exact_cases[of w st i] by blast
  then show "list_all2 ?R (log st) (log (fst (checkResult w st i)))"
  proof cases
    case same
    then show ?thesis
      by (simp add: list_all2_conv_all_nth forward_refl)
  next
    case moved
    have "?R (log st ! n)
        ((log st)[k := (log st ! k)\<lparr>status := Completed, completedAt := Some (now w)\<rparr>] ! n)"
      if "n < length (log st)" for n
    proof (cases "n = k")
      case True
      then show ?thesis
        using moved that by (simp add: forward_def)
    next
      case False
      then show ?thesis
        by (simp add: forward_refl)
    qed
    then show ?thesis
      using moved(3) by (simp add: list_all2_conv_all_nth)
  qed
next
  assume a: "firstLogged st i k \<and> checkBlobExists w (storageName (log st ! k)) = Inr False"
  then have "getLoggedJob st i = Some (log st ! k)"
    using firstLogged_lookup(1) by blast
  then show "bodyStatus (bodyOf (snd (checkResult w st i))) = Some Processing"
    using a checkResult_absent[of st i "log st ! k" w] by simp
next
  assume a: "firstLogged st i k \<and> checkBlobExists w (storageName (log st ! k)) = Inr True \<and>
    generateSasUrl w (storageName (log st ! k)) = Inr url"
  then have "getLoggedJob st i = Some (log st ! k)"
    using firstLogged_lookup(1) by blast
  then show "bodyStatus (bodyOf (snd (checkResult w st i))) = Some Completed"
    using a checkResult_present[of st i "log st ! k" w url] by simp
next
  show "bodyStatus (bodyOf (snd (checkResult w st i))) \<noteq> Some Error"
    by (rule checkResult_never_error)
next
  assume "bodyStatus (bodyOf (snd (getJobStatus w st i))) = Some s"
  then show "(\<exists>m. firstQueued st i m \<and> s = status (queue st ! m)) \<or>
      (\<not> inQueue st i \<and>
       (\<exists>n. firstLogged st i n \<and>
          (if status (log st ! n) = Processing \<or> status (log st ! n) = Completed
           then s = Processing \<or> s = Completed
           else s = status (log st ! n))))"
    by (rule getJobStatus_reported)
qed

text \<open>
  The run for C7, on stores that the handlers produce. After the failed dispatch, polling
  leaves the store as it is, also once a blob of the job's name exists; \<open>checkResult\<close>
  reports \<open>processing\<close> or \<open>completed\<close> for the job stored as \<open>error\<close>, and \<open>getJobStatus\<close>
  reports the status of the queued record. After the two successful submissions, the
  check of \<open>job-1\<close> takes its record from \<open>processing\<close> to \<open>completed\<close> and leaves the
  other record alone, and a later check leaves the completed record as it is.
\<close>

theorem C7_stored_status_witness:
  "fst (submitSequence failingWorld emptyStore (Str exampleSequence)) = failedStore \<and>
   firstLogged failedStore ''job-1'' 0 \<and> log failedStore ! 0 = failedJob \<and>
   status failedJob = Error \<and>
   fst (getJobStatus uploadedWorld failedStore ''job-1'') = failedStore \<and>
   fst (checkResult uploadedWorld failedStore ''job-1'') = failedStore \<and>
   bodyStatus (bodyOf (snd (checkResult laterWorld failedStore ''job-1''))) = Some Processing \<and>
   bodyStatus (bodyOf (snd (checkResult uploadedWorld failedStore ''job-1''))) = Some Completed \<and>
   bodyStatus (bodyOf (snd (getJobStatus laterWorld failedStore ''job-1''))) = Some Queued \<and>
   firstQueued failedStore ''job-1'' 0 \<and> status (queue failedStore ! 0) = Queued \<and>
   fst (submitSequence exampleWorld
     (fst (submitSequence earlierWorld emptyStore (Str exampleSequence)))
     (Str exampleSequence)) = twoJobStore \<and>
   fst (checkResult uploadedWorld twoJobStore ''job-1'') =
     \<lparr>queue = [],
       log = [earlierJob, processingJob\<lparr>status := Completed, completedAt := Some 5000\<rparr>]\<rparr> \<and>
   forward Processing Completed \<and>
   log (fst (checkResult uploadedWorld (fst (checkResult uploadedWorld twoJobStore ''job-1''))
     ''job-1'')) ! Suc 0 = processingJob\<lparr>status := Completed, completedAt := Some 5000\<rparr>"
proof -
  let ?u = "\<lparr>sasBlob = ''proteins/job-1.pdb'', sasExpiresOn = 5000 + day\<rparr>"
  let ?done = "\<lparr>queue = [],
       log = [earlierJob, processingJob\<lparr>status := Completed, completedAt := Some 5000\<rparr>]\<rparr>"
  have fl: "firstLogged failedStore ''job-1'' 0" "log failedStore ! 0 = failedJob"
    by (simp_all add: firstLogged_def failedStore_def failedJob_def queuedJob_def)
  have fq: "firstQueued failedStore ''job-1'' 0" "status (queue failedStore ! 0) = Queued"
    by (simp_all add: firstQueued_def failedStore_def queuedJob_def)
  have e: "status failedJob = Error"
    by (simp add: job_names)
  have n: "now uploadedWorld = 5000"
    by (simp add: uploadedWorld_def)
  note U = C7_stored_status_forward[where w = uploadedWorld and st = failedStore
      and i = "''job-1''" and k = 0 and url = ?u]
  note L = C7_stored_status_forward[where w = laterWorld and st = failedStore
      and i = "''job-1''" and k = 0 and s = Queued]
  have a: "fst (getJobStatus uploadedWorld failedStore ''job-1'') = failedStore"
    using U by blast
  have b1: "queue (fst (checkResult uploadedWorld failedStore ''job-1'')) = queue failedStore"
    using U by blast
  have b2: "log (fst (checkResult uploadedWorld failedStore ''job-1'')) = log failedStore"
    using U e by (auto simp: failedStore_def list_all2_Cons1)
  have b: "fst (checkResult uploadedWorld failedStore ''job-1'') = failedStore"
    using b1 b2 by (simp add: store.equality)
  have c: "bodyStatus (bodyOf (snd (checkResult laterWorld failedStore ''job-1''))) = Some Processing"
    using L fl blob_absent by simp
  have d: "bodyStatus (bodyOf (snd (checkResult uploadedWorld failedStore ''job-1''))) =
      Some Completed"
    using U fl blob_present uploaded_url by (simp add: job_names)
  have g: "bodyStatus (bodyOf (snd (getJobStatus laterWorld failedStore ''job-1''))) = Some Queued"
    using getJobStatus_queued[OF failed_queued, of laterWorld] by (simp add: job_names)
  have h: "(\<exists>m. firstQueued failedStore ''job-1'' m \<and> Queued = status (queue failedStore ! m)) \<or>
      \<not> inQueue failedStore ''job-1''"
    using L g by blast
  have t: "fst (checkResult uploadedWorld twoJobStore ''job-1'') = ?done"
    using checkResult_first_transition[OF two_first, of uploadedWorld] blob_present
    by (simp add: two_nth job_names n twoJobStore_def)
  note D = C7_stored_status_forward[where w = uploadedWorld and st = ?done and i = "''job-1''"]
  have r: "log (fst (checkResult uploadedWorld ?done ''job-1'')) ! Suc 0 =
      processingJob\<lparr>status := Completed, completedAt := Some 5000\<rparr>"
    using D[THEN conjunct2, THEN conjunct2, THEN conjunct1]
    by (auto simp: list_all2_Cons1)
  have f: "forward Processing Completed"
    by (simp add: forward_def)
  show ?thesis
    using a b c d g h t r f fl fq e two_reached run_failure_store by simp
qed

subsection \<open>C8: URLs in responses are fresh\<close>

text \<open>
  C8, as stated, fails. The job that the failed dispatch left in the queue is answered,
  two days after its submission, with the URL stored at submission; so is the logged
  job with status \<open>error\<close> when the queue does not hold it. That URL is not the one the
  generator gives in this request, and it expired a day before.
\<close>

theorem C8_stored_url_returned:
  "fst (submitSequence failingWorld emptyStore (Str exampleSequence)) = failedStore \<and>
   bodyUrl (bodyOf (snd (getJobStatus laterWorld failedStore ''job-1''))) = Some exampleUrl \<and>
   bodyUrl (bodyOf (snd (getJobStatus laterWorld (removeFromQueue failedStore ''job-1'')
     ''job-1''))) = Some exampleUrl \<and>
   \<not> fresh laterWorld exampleUrl \<and>
   sasExpiresOn exampleUrl < now laterWorld"
proof -
  have a: "getJobStatus laterWorld failedStore ''job-1'' =
      (failedStore, Response 200 (JobBody queuedJob ''Job is queued for processing''))"
    using getJobStatus_queued[OF failed_queued] by simp
  have q: "getQueuedJob (removeFromQueue failedStore ''job-1'') ''job-1'' = None"
    by (simp add: failed_log_only getQueuedJob_def)
  have g: "getLoggedJob (removeFromQueue failedStore ''job-1'') ''job-1'' = Some failedJob"
    by (simp add: failed_log_only getLoggedJob_def failedJob_def queuedJob_def)
  have b: "getJobStatus laterWorld (removeFromQueue failedStore ''job-1'') ''job-1'' =
      (removeFromQueue failedStore ''job-1'',
       Response 200 (JobBody failedJob ''Job has been processed''))"
    using getJobStatus_logged_other[OF q g, of laterWorld] by (simp add: job_names)
  have c: "\<not> fresh laterWorld exampleUrl"
    by (simp add: fresh_def later_url exampleUrl_def day_def)
  have d: "sasExpiresOn exampleUrl < now laterWorld"
    by (simp add: exampleUrl_def later_now day_def)
  have u: "storageUrl queuedJob = Some exampleUrl" "storageUrl failedJob = Some exampleUrl"
    by (simp_all add: queuedJob_def failedJob_def)
  show ?thesis
    using c d by (simp add: a b u run_failure_store)
qed

text \<open>
  C8, amended: a \<open>storageUrl\<close> in a response of \<open>submitSequence\<close>, in a response of
  \<open>checkResult\<close>, and in a response of \<open>getJobStatus\<close> for a job that is not queued and is
  logged with status \<open>processing\<close> or \<open>completed\<close>, is the URL the generator gives during
  that request. For a job found in the queue, and for a logged job in any other status,
  the response of \<open>getJobStatus\<close> carries the \<open>storageUrl\<close> stored with the record.
\<close>

theorem C8_fresh_urls:
  "(bodyUrl (bodyOf (snd (submitSequence w st r))) = Some u \<longrightarrow> fresh w u) \<and>
   (bodyUrl (bodyOf (snd (checkResult w st i))) = Some u \<longrightarrow> fresh w u) \<and>
   (getQueuedJob st i = None \<and> getLoggedJob st i = Some l \<and>
    (status l = Processing \<or> status l = Completed) \<and>
    bodyUrl (bodyOf (snd (getJobStatus w st i))) = Some u \<longrightarrow> fresh w u) \<and>
   (getQueuedJob st i = Some q \<longrightarrow>
      bodyUrl (bodyOf (snd (getJobStatus w st i))) = storageUrl q) \<and>
   (getQueuedJob st i = None \<and> getLoggedJob st i = Some l \<and>
    status l \<noteq> Processing \<and> status l \<noteq> Completed \<longrightarrow>
      bodyUrl (bodyOf (snd (getJobStatus w st i))) = storageUrl l)"
proof (intro conjI impI)
  assume "bodyUrl (bodyOf (snd (submitSequence w st r))) = Some u"
  then show "fresh w u"
    by (rule submit_url_fresh)
next
  assume "bodyUrl (bodyOf (snd (checkResult w st i))) = Some u"
  then show "fresh w u"
    by (rule checkResult_url_fresh)
next
  assume a: "getQueuedJob st i = None \<and> getLoggedJob st i = Some l \<and>
    (status l = Processing \<or> status l = Completed) \<and>
    bodyUrl (bodyOf (snd (getJobStatus w st i))) = Some u"
  show "fresh w u"
  proof (cases "generateSasUrl w (storageName l)")
    case (Inl e)
    then show ?thesis
      using a by (auto simp: getJobStatus_def)
  next
    case (Inr url)
    then have "u = url"
      using a by (auto simp: getJobStatus_def split: sum.splits)
    then show ?thesis
      using Inr generateSasUrl_fresh by blast
  qed
next
  assume "getQueuedJob st i = Some q"
  then show "bodyUrl (bodyOf (snd (getJobStatus w st i))) = storageUrl q"
    by (simp add: getJobStatus_queued)
next
  assume "getQueuedJob st i = None \<and> getLoggedJob st i = Some l \<and>
    status l \<noteq> Processing \<and> status l \<noteq> Completed"
  then show "bodyUrl (bodyOf (snd (getJobStatus w st i))) = storageUrl l"
    by (simp add: getJobStatus_logged_other)
qed

text \<open>
  The run for C8: the URLs of the submission, of the check once the blob exists and of
  the status poll for the job logged as \<open>processing\<close> are those of their own requests;
  the poll for the queued job and for the failed job returns the URL of the submission.
\<close>

theorem C8_fresh_urls_witness:
  "bodyUrl (bodyOf (snd (submitSequence exampleWorld emptyStore (Str exampleSequence)))) =
     Some exampleUrl \<and> fresh exampleWorld exampleUrl \<and>
   bodyUrl (bodyOf (snd (checkResult uploadedWorld processingStore ''job-1''))) =
     Some \<lparr>sasBlob = ''proteins/job-1.pdb'', sasExpiresOn = 5000 + day\<rparr> \<and>
   fresh uploadedWorld \<lparr>sasBlob = ''proteins/job-1.pdb'', sasExpiresOn = 5000 + day\<rparr> \<and>
   bodyUrl (bodyOf (snd (getJobStatus laterWorld processingStore ''job-1''))) =
     Some \<lparr>sasBlob = ''proteins/job-1.pdb'', sasExpiresOn = 1000 + 3 * day\<rparr> \<and>
   fresh laterWorld \<lparr>sasBlob = ''proteins/job-1.pdb'', sasExpiresOn = 1000 + 3 * day\<rparr> \<and>
   getQueuedJob failedStore ''job-1'' = Some queuedJob \<and>
   bodyUrl (bodyOf (snd (getJobStatus laterWorld failedStore ''job-1''))) =
     storageUrl queuedJob \<and>
   getLoggedJob (removeFromQueue failedStore ''job-1'') ''job-1'' = Some failedJob \<and>
   bodyUrl (bodyOf (snd (getJobStatus laterWorld (removeFromQueue failedStore ''job-1'')
     ''job-1''))) = storageUrl failedJob"
proof -
  let ?u5 = "\<lparr>sasBlob = ''proteins/job-1.pdb'', sasExpiresOn = 5000 + day\<rparr>"
  let ?u3 = "\<lparr>sasBlob = ''proteins/job-1.pdb'', sasExpiresOn = 1000 + 3 * day\<rparr>"
  let ?st = "removeFromQueue failedStore ''job-1''"
  have s1: "bodyUrl (bodyOf (snd (submitSequence exampleWorld emptyStore (Str exampleSequence)))) =
      Some exampleUrl"
    by (simp add: run_success_store)
  have s2: "bodyUrl (bodyOf (snd (checkResult uploadedWorld processingStore ''job-1''))) = Some ?u5"
    using checkResult_present[OF processing_logged, of uploadedWorld ?u5] blob_present
      uploaded_url by (simp add: job_names)
  have s3: "bodyUrl (bodyOf (snd (getJobStatus laterWorld processingStore ''job-1''))) = Some ?u3"
    using getJobStatus_logged[OF processing_not_queued processing_logged, of laterWorld ?u3 False]
      later_url blob_absent by (simp add: job_names)
  have q: "getQueuedJob ?st ''job-1'' = None"
    by (simp add: failed_log_only getQueuedJob_def)
  have g: "getLoggedJob ?st ''job-1'' = Some failedJob"
    by (simp add: failed_log_only getLoggedJob_def failedJob_def queuedJob_def)
  have f1: "fresh exampleWorld exampleUrl"
    using C8_fresh_urls[where w = exampleWorld and st = emptyStore and r = "Str exampleSequence"
        and u = exampleUrl] s1 by blast
  have f2: "fresh uploadedWorld ?u5"
    using C8_fresh_urls[where w = uploadedWorld and st = processingStore and i = "''job-1''" and u = ?u5] s2 by blast
  have f3: "fresh laterWorld ?u3"
    using C8_fresh_urls[where w = laterWorld and st = processingStore and i = "''job-1''" and u = ?u3
        and l = processingJob]
      s3 processing_not_queued processing_logged by (simp add: job_names)
  have p1: "bodyUrl (bodyOf (snd (getJobStatus laterWorld failedStore ''job-1''))) =
      storageUrl queuedJob"
    using C8_fresh_urls[where w = laterWorld and st = failedStore and i = "''job-1''" and q = queuedJob] failed_queued
    by blast
  have p2: "bodyUrl (bodyOf (snd (getJobStatus laterWorld ?st ''job-1''))) = storageUrl failedJob"
    using C8_fresh_urls[where w = laterWorld and st = ?st and i = "''job-1''" and l = failedJob] q g
    by (simp add: job_names)
  show ?thesis
    using s1 s2 s3 f1 f2 f3 p1 p2 g failed_queued by blast
qed

subsection \<open>C9: existence checks of the storage adapters\<close>

text \<open>
  C9. Both adapters return \<open>true\<close> exactly when the metadata call resolves, \<open>false\<close>
  exactly when it is rejected with the provider's not-found signal (Azure: \<open>statusCode\<close>
  404; S3: error name \<open>NotFound\<close>), and throw exactly the rejecting error in every other
  case.
\<close>

theorem C9_existence_check:
  "(checkBlobExists w blobName = Inr True \<longleftrightarrow> getProperties w blobName = Resolved) \<and>
   (checkBlobExists w blobName = Inr False \<longleftrightarrow>
      (\<exists>e. getProperties w blobName = Rejected e \<and> statusCode e = Some 404)) \<and>
   (checkBlobExists w blobName = Inl x \<longleftrightarrow>
      (\<exists>e. getProperties w blobName = Rejected e \<and> statusCode e \<noteq> Some 404 \<and>
           x = StorageFailure e)) \<and>
   (checkObjectExists send objectKey = Inr True \<longleftrightarrow> send objectKey = Resolved) \<and>
   (checkObjectExists send objectKey = Inr False \<longleftrightarrow>
      (\<exists>err. send objectKey = Rejected err \<and> name err = ''NotFound'')) \<and>
   (checkObjectExists send objectKey = Inl y \<longleftrightarrow>
      send objectKey = Rejected y \<and> name y \<noteq> ''NotFound'')"
  by (auto simp: checkBlobExists_def checkObjectExists_def split: sdk_result.splits)

subsection \<open>C10: validation is case-insensitive\<close>

text \<open>
  C10. The claim asks that a string is accepted if and only if it is not empty and each of
  its characters, upper-cased, is one of the twenty letters. The validator tests
  \<open>validAminoAcids.includes(char.toUpperCase())\<close>, a substring search, so it accepts
  exactly the non-empty strings whose characters upper-case to one of the twenty letters
  or are one of the ligatures U+FB05 and U+FB06, whose upper-case form is the two-letter
  string \<open>ST\<close>, a substring of the alphabet.
\<close>

theorem C10_validator_characters:
  "isValidSequence (Str s) \<longleftrightarrow>
     s \<noteq> [] \<and> (\<forall>c\<in>set s. (\<exists>a\<in>set validAminoAcids. toUpperCase c = [a]) \<or> c = 0xFB05 \<or> c = 0xFB06)"
  by (simp add: list_all_iff unit_accepted_iff)

text \<open>
  The characterisation at the one-character string U+FB05: it is accepted, although its
  upper-case form \<open>ST\<close> is none of the twenty letters.
\<close>

theorem C10_ligature_witness:
  "isValidSequence (Str [0xFB05]) \<and> toUpperCase 0xFB05 = utf16 ''ST'' \<and>
   \<not> (\<exists>a\<in>set validAminoAcids. toUpperCase 0xFB05 = [a])"
proof -
  have "toUpperCase 0xFB05 = utf16 ''ST''"
    by (simp add: toUpperCase_def utf16_def)
  then show ?thesis
    using C10_validator_characters[of "[0xFB05]"] by (simp add: utf16_def)
qed

end
